theory Spec2Isabelle
  imports Complex_Main "HOL-Library.Word"
begin

unbundle bit_operations_syntax

section \<open>Numeric values consumed by TransformState\<close>

text \<open>
  The inline member functions of \<^verbatim>\<open>transformState.I\<close> are embedded here.  The class
  declaration (\<^verbatim>\<open>transformState.h\<close>), the out-of-line members
  (\<^verbatim>\<open>transformState.cxx\<close>) and the linmath library are not part of the sources at hand.
  \<^verbatim>\<open>PN_stdfloat\<close> is idealised as a real number: rounding is not modelled.
  A C++ member \<^verbatim>\<open>_name\<close> is written \<open>m_name\<close>, a static member \<open>s_name\<close>.
\<close>

type_synonym PN_stdfloat = real

datatype LVecBase2 = LVecBase2 (v2_0: PN_stdfloat) (v2_1: PN_stdfloat)

datatype LVecBase3 = LVecBase3 (v3_0: PN_stdfloat) (v3_1: PN_stdfloat) (v3_2: PN_stdfloat)

type_synonym LPoint3 = LVecBase3

datatype LVecBase4 =
  LVecBase4 (v4_0: PN_stdfloat) (v4_1: PN_stdfloat) (v4_2: PN_stdfloat) (v4_3: PN_stdfloat)

datatype LQuaternion =
  LQuaternion (q_r: PN_stdfloat) (q_i: PN_stdfloat) (q_j: PN_stdfloat) (q_k: PN_stdfloat)

text \<open>A 4x4 matrix is four rows; \<^verbatim>\<open>m(i, j)\<close> is column \<open>j\<close> of row \<open>i\<close>.\<close>

datatype LMatrix4 =
  LMatrix4 (row_0: LVecBase4) (row_1: LVecBase4) (row_2: LVecBase4) (row_3: LVecBase4)

datatype LMatrix3 =
  LMatrix3 PN_stdfloat PN_stdfloat PN_stdfloat
           PN_stdfloat PN_stdfloat PN_stdfloat
           PN_stdfloat PN_stdfloat PN_stdfloat

definition LVecBase2_zero :: LVecBase2 where
  "LVecBase2_zero = LVecBase2 0 0"

definition LVecBase3_zero :: LVecBase3 where
  "LVecBase3_zero = LVecBase3 0 0 0"

definition ident_mat :: LMatrix4 where
  "ident_mat = LMatrix4 (LVecBase4 1 0 0 0) (LVecBase4 0 1 0 0)
                        (LVecBase4 0 0 1 0) (LVecBase4 0 0 0 1)"

definition ident_mat3 :: LMatrix3 where
  "ident_mat3 = LMatrix3 1 0 0  0 1 0  0 0 1"

text \<open>
  Modelled from the spec: the macro \<^verbatim>\<open>IS_NEARLY_EQUAL\<close> and
  \<^verbatim>\<open>LVecBase3::almost_equal\<close> belong to the numeric library, which is not under src/.
  The spec calls them an epsilon comparison; the epsilon is the parameter \<open>eps\<close>.
\<close>

definition IS_NEARLY_EQUAL :: "PN_stdfloat \<Rightarrow> PN_stdfloat \<Rightarrow> PN_stdfloat \<Rightarrow> bool" where
  "IS_NEARLY_EQUAL eps a b \<longleftrightarrow> a - b < eps \<and> a - b > - eps"

definition almost_equal :: "PN_stdfloat \<Rightarrow> LVecBase3 \<Rightarrow> LVecBase3 \<Rightarrow> bool" where
  "almost_equal eps a b \<longleftrightarrow>
     IS_NEARLY_EQUAL eps (v3_0 a) (v3_0 b) \<and>
     IS_NEARLY_EQUAL eps (v3_1 a) (v3_1 b) \<and>
     IS_NEARLY_EQUAL eps (v3_2 a) (v3_2 b)"

text \<open>
  Modelled from the spec: \<^verbatim>\<open>enum CoordinateSystem\<close> is declared outside src/.
  \<^verbatim>\<open>get_rotate2d\<close> names four of its values and has a \<^verbatim>\<open>default\<close> branch for the rest.
\<close>

datatype CoordinateSystem =
  CS_default | CS_zup_right | CS_yup_right | CS_zup_left | CS_yup_left | CS_invalid

section \<open>The TransformState object\<close>

type_synonym addr = nat

text \<open>
  Modelled from the spec: \<^verbatim>\<open>enum Flags\<close> is declared in \<^verbatim>\<open>transformState.h\<close>, which is
  not under src/.  Every flag the inline functions name is one bit of its own.
\<close>

definition flag_bit :: "nat \<Rightarrow> 32 word" where
  "flag_bit n = 2 ^ n"

definition F_is_singular :: "32 word" where "F_is_singular = flag_bit 1"
definition F_singular_known :: "32 word" where "F_singular_known = flag_bit 2"
definition F_components_given :: "32 word" where "F_components_given = flag_bit 3"
definition F_components_known :: "32 word" where "F_components_known = flag_bit 4"
definition F_has_components :: "32 word" where "F_has_components = flag_bit 5"
definition F_mat_known :: "32 word" where "F_mat_known = flag_bit 6"
definition F_quat_given :: "32 word" where "F_quat_given = flag_bit 8"
definition F_quat_known :: "32 word" where "F_quat_known = flag_bit 9"
definition F_hpr_given :: "32 word" where "F_hpr_given = flag_bit 10"
definition F_hpr_known :: "32 word" where "F_hpr_known = flag_bit 11"
definition F_uniform_scale :: "32 word" where "F_uniform_scale = flag_bit 12"
definition F_identity_scale :: "32 word" where "F_identity_scale = flag_bit 13"
definition F_has_nonzero_shear :: "32 word" where "F_has_nonzero_shear = flag_bit 14"
definition F_is_destructing :: "32 word" where "F_is_destructing = flag_bit 15"
definition F_is_2d :: "32 word" where "F_is_2d = flag_bit 16"
definition F_norm_quat_known :: "32 word" where "F_norm_quat_known = flag_bit 18"

text \<open>\<^verbatim>\<open>class Composition\<close>: the cached result of one composition.\<close>

record Composition =
  c_result :: "addr option"

text \<open>
  Modelled from the spec: \<^verbatim>\<open>SimpleHashMap\<close> is declared outside src/.  A cache is the
  sequence of its entries, a key (the other operand) with its \<^verbatim>\<open>Composition\<close>;
  \<^verbatim>\<open>get_num_entries\<close> counts them.
\<close>

type_synonym CompositionCache = "(addr \<times> Composition) list"

definition get_num_entries :: "CompositionCache \<Rightarrow> nat" where
  "get_num_entries c = length c"

record TransformState =
  m_pos :: LPoint3
  m_hpr :: LVecBase3
  m_scale :: LVecBase3
  m_shear :: LVecBase3
  m_quat :: LQuaternion
  m_norm_quat :: LQuaternion
  m_mat :: LMatrix4
  m_inv_mat :: "LMatrix4 option"
  m_hash :: "64 word"
  m_flags :: "32 word"
  m_composition_cache :: CompositionCache
  m_invert_composition_cache :: CompositionCache

text \<open>
  The static members: the registry lock and the two singletons.  A null pointer is
  \<open>None\<close>.
\<close>

record statics =
  s_states_lock :: "addr option"
  s_identity_state :: "addr option"
  s_invalid_state :: "addr option"

text \<open>
  The process state: the statics, the objects allocated so far (the address of an
  object is its index) and the registry of canonical instances.
\<close>

record world = statics +
  w_objects :: "TransformState list"
  w_states :: "addr list"

definition deref :: "world \<Rightarrow> addr option \<Rightarrow> TransformState option" where
  "deref w p =
     (case p of
        None \<Rightarrow> None
      | Some a \<Rightarrow> if a < length (w_objects w) then Some (w_objects w ! a) else None)"

text \<open>
  The out-of-line members that the inline functions call live in
  \<^verbatim>\<open>transformState.cxx\<close>; they are parameters of the embedding.  Each one maps the
  object to the object it leaves behind.
\<close>

record derivation =
  calc_hash :: "TransformState \<Rightarrow> TransformState"
  calc_singular :: "TransformState \<Rightarrow> TransformState"
  do_calc_components :: "TransformState \<Rightarrow> TransformState"
  do_calc_hpr :: "TransformState \<Rightarrow> TransformState"
  calc_quat :: "TransformState \<Rightarrow> TransformState"
  calc_norm_quat :: "TransformState \<Rightarrow> TransformState"
  do_calc_mat :: "TransformState \<Rightarrow> TransformState"

text \<open>
  \<^verbatim>\<open>nassertr(cond, fallback); return v;\<close> in a build with assertions: a failed condition is
  reported and the fallback is returned.
\<close>

datatype 'a asserted = Returned 'a | Assertion_failed 'a

definition nassertr :: "bool \<Rightarrow> 'a \<Rightarrow> 'a \<Rightarrow> 'a asserted" where
  "nassertr cond fallback v = (if cond then Returned v else Assertion_failed fallback)"

fun result_of :: "'a asserted \<Rightarrow> 'a" where
  "result_of (Returned v) = v"
| "result_of (Assertion_failed v) = v"

fun assertion_failed :: "'a asserted \<Rightarrow> bool" where
  "assertion_failed (Returned v) = False"
| "assertion_failed (Assertion_failed v) = True"

subsection \<open>Ensuring derived state (check-then-calculate)\<close>

text \<open>The sentinel \<^verbatim>\<open>H_unknown\<close> is declared outside src/; it is the parameter \<open>H_unknown\<close>.\<close>

definition check_hash :: "64 word \<Rightarrow> derivation \<Rightarrow> TransformState \<Rightarrow> TransformState" where
  "check_hash H_unknown d t = (if m_hash t = H_unknown then calc_hash d t else t)"

definition get_hash :: "64 word \<Rightarrow> derivation \<Rightarrow> TransformState \<Rightarrow> 64 word \<times> TransformState" where
  "get_hash H_unknown d t = (let t1 = check_hash H_unknown d t in (m_hash t1, t1))"

definition check_singular :: "derivation \<Rightarrow> TransformState \<Rightarrow> TransformState" where
  "check_singular d t = (if m_flags t AND F_singular_known = 0 then calc_singular d t else t)"

text \<open>\<^verbatim>\<open>calc_components\<close>, \<^verbatim>\<open>calc_hpr\<close> and \<^verbatim>\<open>calc_mat\<close> hold the object's lock around the work.\<close>

definition calc_components :: "derivation \<Rightarrow> TransformState \<Rightarrow> TransformState" where
  "calc_components d t = do_calc_components d t"

definition calc_hpr :: "derivation \<Rightarrow> TransformState \<Rightarrow> TransformState" where
  "calc_hpr d t = do_calc_hpr d t"

definition calc_mat :: "derivation \<Rightarrow> TransformState \<Rightarrow> TransformState" where
  "calc_mat d t = do_calc_mat d t"

definition check_components :: "derivation \<Rightarrow> TransformState \<Rightarrow> TransformState" where
  "check_components d t =
     (if m_flags t AND F_components_known = 0 then calc_components d t else t)"

definition check_hpr :: "derivation \<Rightarrow> TransformState \<Rightarrow> TransformState" where
  "check_hpr d t = (if m_flags t AND F_hpr_known = 0 then calc_hpr d t else t)"

definition check_quat :: "derivation \<Rightarrow> TransformState \<Rightarrow> TransformState" where
  "check_quat d t = (if m_flags t AND F_quat_known = 0 then calc_quat d t else t)"

definition check_norm_quat :: "derivation \<Rightarrow> TransformState \<Rightarrow> TransformState" where
  "check_norm_quat d t =
     (if m_flags t AND F_norm_quat_known = 0 then calc_norm_quat d t else t)"

definition check_mat :: "derivation \<Rightarrow> TransformState \<Rightarrow> TransformState" where
  "check_mat d t = (if m_flags t AND F_mat_known = 0 then calc_mat d t else t)"

subsection \<open>Predicates\<close>

text \<open>\<open>this\<close> is the address of the object the member function is called on.\<close>

definition is_identity :: "'a statics_scheme \<Rightarrow> addr \<Rightarrow> bool" where
  "is_identity g this \<longleftrightarrow> Some this = s_identity_state g"

definition is_invalid :: "'a statics_scheme \<Rightarrow> addr \<Rightarrow> bool" where
  "is_invalid g this \<longleftrightarrow> Some this = s_invalid_state g"

definition is_singular :: "derivation \<Rightarrow> TransformState \<Rightarrow> bool \<times> TransformState" where
  "is_singular d t = (let t1 = check_singular d t in (m_flags t1 AND F_is_singular \<noteq> 0, t1))"

definition is_2d :: "TransformState \<Rightarrow> bool" where
  "is_2d t \<longleftrightarrow> m_flags t AND F_is_2d \<noteq> 0"

definition has_components :: "derivation \<Rightarrow> TransformState \<Rightarrow> bool \<times> TransformState" where
  "has_components d t =
     (let t1 = check_components d t in (m_flags t1 AND F_has_components \<noteq> 0, t1))"

definition components_given :: "TransformState \<Rightarrow> bool" where
  "components_given t \<longleftrightarrow> m_flags t AND F_components_given \<noteq> 0"

definition hpr_given :: "TransformState \<Rightarrow> bool" where
  "hpr_given t \<longleftrightarrow> m_flags t AND F_hpr_given \<noteq> 0"

definition quat_given :: "TransformState \<Rightarrow> bool" where
  "quat_given t \<longleftrightarrow> m_flags t AND F_quat_given \<noteq> 0"

definition has_pos :: "'a statics_scheme \<Rightarrow> addr \<Rightarrow> bool" where
  "has_pos g this \<longleftrightarrow> \<not> is_invalid g this"

definition has_hpr :: "derivation \<Rightarrow> TransformState \<Rightarrow> bool \<times> TransformState" where
  "has_hpr d t = has_components d t"

definition has_quat :: "derivation \<Rightarrow> TransformState \<Rightarrow> bool \<times> TransformState" where
  "has_quat d t = has_components d t"

definition has_scale :: "derivation \<Rightarrow> TransformState \<Rightarrow> bool \<times> TransformState" where
  "has_scale d t = has_components d t"

definition has_identity_scale :: "derivation \<Rightarrow> TransformState \<Rightarrow> bool \<times> TransformState" where
  "has_identity_scale d t =
     (let t1 = check_components d t in (m_flags t1 AND F_identity_scale \<noteq> 0, t1))"

definition has_uniform_scale :: "derivation \<Rightarrow> TransformState \<Rightarrow> bool \<times> TransformState" where
  "has_uniform_scale d t =
     (let t1 = check_components d t in (m_flags t1 AND F_uniform_scale \<noteq> 0, t1))"

definition has_shear :: "derivation \<Rightarrow> TransformState \<Rightarrow> bool \<times> TransformState" where
  "has_shear d t = has_components d t"

definition has_nonzero_shear :: "derivation \<Rightarrow> TransformState \<Rightarrow> bool \<times> TransformState" where
  "has_nonzero_shear d t =
     (let t1 = check_components d t in (m_flags t1 AND F_has_nonzero_shear \<noteq> 0, t1))"

definition has_mat :: "'a statics_scheme \<Rightarrow> addr \<Rightarrow> bool" where
  "has_mat g this \<longleftrightarrow> \<not> is_invalid g this"

subsection \<open>Representation accessors\<close>

text \<open>
  Every accessor returns its value together with the object as the lazy derivation
  left it.  The result says whether the \<^verbatim>\<open>nassertr\<close> of the accessor failed.
\<close>

definition get_pos ::
  "derivation \<Rightarrow> 'a statics_scheme \<Rightarrow> addr \<Rightarrow> TransformState \<Rightarrow> LPoint3 asserted \<times> TransformState" where
  "get_pos d g this t =
     (let t1 = check_components d t
      in (nassertr (has_pos g this) (m_pos t1) (m_pos t1), t1))"

definition get_hpr ::
  "derivation \<Rightarrow> 'a statics_scheme \<Rightarrow> addr \<Rightarrow> TransformState \<Rightarrow> LVecBase3 asserted \<times> TransformState" where
  "get_hpr d g this t =
     (let t1 = check_hpr d t
      in (nassertr (\<not> is_invalid g this) (m_hpr t1) (m_hpr t1), t1))"

definition get_quat ::
  "derivation \<Rightarrow> 'a statics_scheme \<Rightarrow> addr \<Rightarrow> TransformState \<Rightarrow> LQuaternion asserted \<times> TransformState" where
  "get_quat d g this t =
     (let t1 = check_quat d t
      in (nassertr (\<not> is_invalid g this) (m_quat t1) (m_quat t1), t1))"

definition get_norm_quat ::
  "derivation \<Rightarrow> 'a statics_scheme \<Rightarrow> addr \<Rightarrow> TransformState \<Rightarrow> LQuaternion asserted \<times> TransformState" where
  "get_norm_quat d g this t =
     (let t1 = check_norm_quat d t
      in (nassertr (\<not> is_invalid g this) (m_norm_quat t1) (m_norm_quat t1), t1))"

definition get_scale ::
  "derivation \<Rightarrow> 'a statics_scheme \<Rightarrow> addr \<Rightarrow> TransformState \<Rightarrow> LVecBase3 asserted \<times> TransformState" where
  "get_scale d g this t =
     (let t1 = check_components d t
      in (nassertr (\<not> is_invalid g this) (m_scale t1) (m_scale t1), t1))"

definition get_uniform_scale ::
  "derivation \<Rightarrow> TransformState \<Rightarrow> PN_stdfloat asserted \<times> TransformState" where
  "get_uniform_scale d t =
     (let t1 = check_components d t;
          (u, t2) = has_uniform_scale d t1
      in (nassertr u (v3_0 (m_scale t2)) (v3_0 (m_scale t2)), t2))"

definition get_shear ::
  "derivation \<Rightarrow> 'a statics_scheme \<Rightarrow> addr \<Rightarrow> TransformState \<Rightarrow> LVecBase3 asserted \<times> TransformState" where
  "get_shear d g this t =
     (let t1 = check_components d t
      in (nassertr (\<not> is_invalid g this) (m_shear t1) (m_shear t1), t1))"

text \<open>\<^verbatim>\<open>get_mat\<close> asserts first and derives the matrix only when the assertion holds.\<close>

definition get_mat ::
  "derivation \<Rightarrow> 'a statics_scheme \<Rightarrow> addr \<Rightarrow> TransformState \<Rightarrow> LMatrix4 asserted \<times> TransformState" where
  "get_mat d g this t =
     (if has_mat g this
      then (let t1 = check_mat d t in (Returned (m_mat t1), t1))
      else (Assertion_failed ident_mat, t))"

definition get_inverse_mat ::
  "derivation \<Rightarrow> TransformState \<Rightarrow> LMatrix4 option asserted \<times> TransformState" where
  "get_inverse_mat d t =
     (let (s, t1) = is_singular d t
      in if \<not> s
         then (nassertr (m_inv_mat t1 \<noteq> None) None (m_inv_mat t1), t1)
         else (Returned None, t1))"

definition get_pos2d ::
  "derivation \<Rightarrow> 'a statics_scheme \<Rightarrow> addr \<Rightarrow> TransformState \<Rightarrow> LVecBase2 asserted \<times> TransformState" where
  "get_pos2d d g this t =
     (let t1 = check_components d t
      in (nassertr (has_pos g this \<and> is_2d t1) LVecBase2_zero
            (LVecBase2 (v3_0 (m_pos t1)) (v3_1 (m_pos t1))), t1))"

definition get_rotate2d ::
  "CoordinateSystem \<Rightarrow> derivation \<Rightarrow> 'a statics_scheme \<Rightarrow> addr \<Rightarrow> TransformState
     \<Rightarrow> PN_stdfloat asserted \<times> TransformState" where
  "get_rotate2d cs d g this t =
     (let t1 = check_hpr d t
      in (nassertr (\<not> is_invalid g this \<and> is_2d t1) 0
            (case cs of
               CS_zup_left \<Rightarrow> - v3_0 (m_hpr t1)
             | CS_yup_right \<Rightarrow> - v3_2 (m_hpr t1)
             | CS_yup_left \<Rightarrow> v3_2 (m_hpr t1)
             | _ \<Rightarrow> v3_0 (m_hpr t1)), t1))"

definition get_scale2d ::
  "derivation \<Rightarrow> 'a statics_scheme \<Rightarrow> addr \<Rightarrow> TransformState \<Rightarrow> LVecBase2 asserted \<times> TransformState" where
  "get_scale2d d g this t =
     (let t1 = check_components d t
      in (nassertr (\<not> is_invalid g this \<and> is_2d t1) LVecBase2_zero
            (LVecBase2 (v3_0 (m_scale t1)) (v3_1 (m_scale t1))), t1))"

definition get_shear2d ::
  "derivation \<Rightarrow> 'a statics_scheme \<Rightarrow> addr \<Rightarrow> TransformState \<Rightarrow> PN_stdfloat asserted \<times> TransformState" where
  "get_shear2d d g this t =
     (let t1 = check_components d t
      in (nassertr (\<not> is_invalid g this \<and> is_2d t1) 0 (v3_0 (m_shear t1)), t1))"

definition get_mat3 ::
  "derivation \<Rightarrow> 'a statics_scheme \<Rightarrow> addr \<Rightarrow> TransformState \<Rightarrow> LMatrix3 asserted \<times> TransformState" where
  "get_mat3 d g this t =
     (if has_mat g this \<and> is_2d t
      then (let t1 = check_mat d t; m = m_mat t1
            in (Returned (LMatrix3
                  (v4_0 (row_0 m)) (v4_1 (row_0 m)) (v4_3 (row_0 m))
                  (v4_0 (row_1 m)) (v4_1 (row_1 m)) (v4_3 (row_1 m))
                  (v4_0 (row_3 m)) (v4_1 (row_3 m)) (v4_3 (row_3 m))), t1))
      else (Assertion_failed ident_mat3, t))"

subsection \<open>Composition cache diagnostics\<close>

text \<open>
  Each of these takes the registry lock for its duration,
  \<^verbatim>\<open>LightReMutexHolder holder(*_states_lock)\<close>; dereferencing a null lock pointer
  has no defined result, which is \<open>None\<close> here.
\<close>

definition get_composition_cache_num_entries ::
  "'a statics_scheme \<Rightarrow> TransformState \<Rightarrow> nat option" where
  "get_composition_cache_num_entries g t =
     (case s_states_lock g of
        None \<Rightarrow> None
      | Some l \<Rightarrow> Some (get_num_entries (m_composition_cache t)))"

definition get_invert_composition_cache_num_entries ::
  "'a statics_scheme \<Rightarrow> TransformState \<Rightarrow> nat option" where
  "get_invert_composition_cache_num_entries g t =
     (case s_states_lock g of
        None \<Rightarrow> None
      | Some l \<Rightarrow> Some (get_num_entries (m_invert_composition_cache t)))"

definition get_composition_cache_size ::
  "'a statics_scheme \<Rightarrow> TransformState \<Rightarrow> nat option" where
  "get_composition_cache_size g t =
     (case s_states_lock g of
        None \<Rightarrow> None
      | Some l \<Rightarrow> Some (get_num_entries (m_composition_cache t)))"

definition get_invert_composition_cache_size ::
  "'a statics_scheme \<Rightarrow> TransformState \<Rightarrow> nat option" where
  "get_invert_composition_cache_size g t =
     (case s_states_lock g of
        None \<Rightarrow> None
      | Some l \<Rightarrow> Some (get_num_entries (m_invert_composition_cache t)))"

subsection \<open>Scale and shear flags\<close>

definition check_uniform_scale :: "PN_stdfloat \<Rightarrow> TransformState \<Rightarrow> TransformState" where
  "check_uniform_scale eps t =
     (let t1 =
        (if IS_NEARLY_EQUAL eps (v3_0 (m_scale t)) (v3_1 (m_scale t)) \<and>
            IS_NEARLY_EQUAL eps (v3_0 (m_scale t)) (v3_2 (m_scale t))
         then (let t2 = t\<lparr>m_flags := m_flags t OR F_uniform_scale\<rparr>
               in if IS_NEARLY_EQUAL eps (v3_0 (m_scale t2)) 1
                  then t2\<lparr>m_flags := m_flags t2 OR F_identity_scale\<rparr>
                  else t2)
         else t)
      in if \<not> almost_equal eps (m_shear t1) LVecBase3_zero
         then t1\<lparr>m_flags := m_flags t1 OR F_has_nonzero_shear\<rparr>
         else t1)"

definition check_uniform_scale2d :: "PN_stdfloat \<Rightarrow> TransformState \<Rightarrow> TransformState" where
  "check_uniform_scale2d eps t =
     (let t1 =
        (if IS_NEARLY_EQUAL eps (v3_0 (m_scale t)) (v3_1 (m_scale t))
         then (let t2 = t\<lparr>m_scale :=
                          LVecBase3 (v3_0 (m_scale t)) (v3_1 (m_scale t)) (v3_0 (m_scale t))\<rparr>;
                   t3 = t2\<lparr>m_flags := m_flags t2 OR F_uniform_scale\<rparr>
               in if IS_NEARLY_EQUAL eps (v3_0 (m_scale t3)) 1
                  then t3\<lparr>m_flags := m_flags t3 OR F_identity_scale\<rparr>
                  else t3)
         else t)
      in if \<not> almost_equal eps (m_shear t1) LVecBase3_zero
         then t1\<lparr>m_flags := m_flags t1 OR F_has_nonzero_shear\<rparr>
         else t1)"

subsection \<open>Factories and the inverse\<close>

text \<open>
  The inline factories hand over to out-of-line functions of \<^verbatim>\<open>transformState.cxx\<close>,
  which are parameters of the embedding.  Each takes the process state and returns a
  pointer with the state it leaves behind.
\<close>

record outofline =
  init_states :: "world \<Rightarrow> world"
  make_pos_hpr_scale_shear ::
    "LVecBase3 \<Rightarrow> LVecBase3 \<Rightarrow> LVecBase3 \<Rightarrow> LVecBase3 \<Rightarrow> world \<Rightarrow> addr option \<times> world"
  make_pos_quat_scale_shear ::
    "LVecBase3 \<Rightarrow> LQuaternion \<Rightarrow> LVecBase3 \<Rightarrow> LVecBase3 \<Rightarrow> world \<Rightarrow> addr option \<times> world"
  make_pos_rotate_scale_shear2d ::
    "LVecBase2 \<Rightarrow> PN_stdfloat \<Rightarrow> LVecBase2 \<Rightarrow> PN_stdfloat \<Rightarrow> world \<Rightarrow> addr option \<times> world"
  invert_compose :: "addr \<Rightarrow> addr option \<Rightarrow> world \<Rightarrow> addr option \<times> world"

definition make_identity :: "outofline \<Rightarrow> world \<Rightarrow> addr option \<times> world" where
  "make_identity x w =
     (let w1 = (if s_states_lock w = None then init_states x w else w)
      in (s_identity_state w1, w1))"

definition make_invalid :: "outofline \<Rightarrow> world \<Rightarrow> addr option \<times> world" where
  "make_invalid x w =
     (let w1 = (if s_states_lock w = None then init_states x w else w)
      in (s_invalid_state w1, w1))"

definition make_pos_hpr_scale ::
  "outofline \<Rightarrow> LVecBase3 \<Rightarrow> LVecBase3 \<Rightarrow> LVecBase3 \<Rightarrow> world \<Rightarrow> addr option \<times> world" where
  "make_pos_hpr_scale x pos hpr scale w =
     make_pos_hpr_scale_shear x pos hpr scale LVecBase3_zero w"

definition make_pos_quat_scale ::
  "outofline \<Rightarrow> LVecBase3 \<Rightarrow> LQuaternion \<Rightarrow> LVecBase3 \<Rightarrow> world \<Rightarrow> addr option \<times> world" where
  "make_pos_quat_scale x pos quat scale w =
     make_pos_quat_scale_shear x pos quat scale LVecBase3_zero w"

definition make_pos :: "outofline \<Rightarrow> LVecBase3 \<Rightarrow> world \<Rightarrow> addr option \<times> world" where
  "make_pos x pos w = make_pos_hpr_scale x pos (LVecBase3 0 0 0) (LVecBase3 1 1 1) w"

definition make_hpr :: "outofline \<Rightarrow> LVecBase3 \<Rightarrow> world \<Rightarrow> addr option \<times> world" where
  "make_hpr x hpr w = make_pos_hpr_scale x (LVecBase3 0 0 0) hpr (LVecBase3 1 1 1) w"

definition make_quat :: "outofline \<Rightarrow> LQuaternion \<Rightarrow> world \<Rightarrow> addr option \<times> world" where
  "make_quat x quat w = make_pos_quat_scale x (LVecBase3 0 0 0) quat (LVecBase3 1 1 1) w"

definition make_pos_hpr ::
  "outofline \<Rightarrow> LVecBase3 \<Rightarrow> LVecBase3 \<Rightarrow> world \<Rightarrow> addr option \<times> world" where
  "make_pos_hpr x pos hpr w = make_pos_hpr_scale x pos hpr (LVecBase3 1 1 1) w"

definition make_pos_quat ::
  "outofline \<Rightarrow> LVecBase3 \<Rightarrow> LQuaternion \<Rightarrow> world \<Rightarrow> addr option \<times> world" where
  "make_pos_quat x pos quat w = make_pos_quat_scale x pos quat (LVecBase3 1 1 1) w"

definition make_pos_rotate_scale2d ::
  "outofline \<Rightarrow> LVecBase2 \<Rightarrow> PN_stdfloat \<Rightarrow> LVecBase2 \<Rightarrow> world \<Rightarrow> addr option \<times> world" where
  "make_pos_rotate_scale2d x pos rot scale w =
     make_pos_rotate_scale_shear2d x pos rot scale 0 w"

text \<open>
  \<^verbatim>\<open>make_scale2d\<close> and \<^verbatim>\<open>make_scale\<close> are overloaded; the overload that takes a vector
  carries the suffix \<open>_v\<close>.
\<close>

definition make_scale2d :: "outofline \<Rightarrow> PN_stdfloat \<Rightarrow> world \<Rightarrow> addr option \<times> world" where
  "make_scale2d x scale w =
     make_pos_rotate_scale2d x (LVecBase2 0 0) 0 (LVecBase2 scale scale) w"

definition make_scale2d_v :: "outofline \<Rightarrow> LVecBase2 \<Rightarrow> world \<Rightarrow> addr option \<times> world" where
  "make_scale2d_v x scale w = make_pos_rotate_scale2d x (LVecBase2 0 0) 0 scale w"

definition make_scale :: "outofline \<Rightarrow> PN_stdfloat \<Rightarrow> world \<Rightarrow> addr option \<times> world" where
  "make_scale x scale w = make_scale2d x scale w"

definition make_scale_v :: "outofline \<Rightarrow> LVecBase3 \<Rightarrow> world \<Rightarrow> addr option \<times> world" where
  "make_scale_v x scale w =
     make_pos_hpr_scale x (LVecBase3 0 0 0) (LVecBase3 0 0 0) scale w"

definition make_shear :: "outofline \<Rightarrow> LVecBase3 \<Rightarrow> world \<Rightarrow> addr option \<times> world" where
  "make_shear x shear w =
     make_pos_hpr_scale_shear x (LVecBase3 0 0 0) (LVecBase3 0 0 0) (LVecBase3 1 1 1) shear w"

definition make_pos2d :: "outofline \<Rightarrow> LVecBase2 \<Rightarrow> world \<Rightarrow> addr option \<times> world" where
  "make_pos2d x pos w = make_pos_rotate_scale2d x pos 0 (LVecBase2 1 1) w"

definition make_rotate2d :: "outofline \<Rightarrow> PN_stdfloat \<Rightarrow> world \<Rightarrow> addr option \<times> world" where
  "make_rotate2d x rot w = make_pos_rotate_scale2d x (LVecBase2 0 0) rot (LVecBase2 1 1) w"

definition make_pos_rotate2d ::
  "outofline \<Rightarrow> LVecBase2 \<Rightarrow> PN_stdfloat \<Rightarrow> world \<Rightarrow> addr option \<times> world" where
  "make_pos_rotate2d x pos rot w = make_pos_rotate_scale2d x pos rot (LVecBase2 1 1) w"

definition make_shear2d :: "outofline \<Rightarrow> PN_stdfloat \<Rightarrow> world \<Rightarrow> addr option \<times> world" where
  "make_shear2d x shear w =
     make_pos_rotate_scale_shear2d x (LVecBase2 0 0) 0 (LVecBase2 1 1) shear w"

text \<open>\<^verbatim>\<open>get_inverse\<close>: the argument \<^verbatim>\<open>make_identity()\<close> is evaluated, then \<^verbatim>\<open>invert_compose\<close>.\<close>

definition get_inverse :: "outofline \<Rightarrow> addr \<Rightarrow> world \<Rightarrow> addr option \<times> world" where
  "get_inverse x this w =
     (let (i, w1) = make_identity x w in invert_compose x this i w1)"

text \<open>Whether the object a factory returned is flagged 2-d.\<close>

definition result_is_2d :: "addr option \<times> world \<Rightarrow> bool" where
  "result_is_2d r = (case deref (snd r) (fst r) of None \<Rightarrow> False | Some t \<Rightarrow> is_2d t)"


section \<open>The numeric library and the out-of-line derivations\<close>

text \<open>
  Modelled from the spec: the numeric transform algebra (matrix product, inverse,
  building a matrix from components) is an external dependency that is not under src/.
  It is written out over the reals with the usual formulas; vectors are rows and
  \<open>xform_by a b\<close> applies \<open>a\<close> first, then \<open>b\<close>.
\<close>

definition dot4 :: "LVecBase4 \<Rightarrow> LVecBase4 \<Rightarrow> PN_stdfloat" where
  "dot4 a b = v4_0 a * v4_0 b + v4_1 a * v4_1 b + v4_2 a * v4_2 b + v4_3 a * v4_3 b"

definition col_0 :: "LMatrix4 \<Rightarrow> LVecBase4" where
  "col_0 m = LVecBase4 (v4_0 (row_0 m)) (v4_0 (row_1 m)) (v4_0 (row_2 m)) (v4_0 (row_3 m))"

definition col_1 :: "LMatrix4 \<Rightarrow> LVecBase4" where
  "col_1 m = LVecBase4 (v4_1 (row_0 m)) (v4_1 (row_1 m)) (v4_1 (row_2 m)) (v4_1 (row_3 m))"

definition col_2 :: "LMatrix4 \<Rightarrow> LVecBase4" where
  "col_2 m = LVecBase4 (v4_2 (row_0 m)) (v4_2 (row_1 m)) (v4_2 (row_2 m)) (v4_2 (row_3 m))"

definition col_3 :: "LMatrix4 \<Rightarrow> LVecBase4" where
  "col_3 m = LVecBase4 (v4_3 (row_0 m)) (v4_3 (row_1 m)) (v4_3 (row_2 m)) (v4_3 (row_3 m))"

definition row_times :: "LVecBase4 \<Rightarrow> LMatrix4 \<Rightarrow> LVecBase4" where
  "row_times r m = LVecBase4 (dot4 r (col_0 m)) (dot4 r (col_1 m)) (dot4 r (col_2 m)) (dot4 r (col_3 m))"

definition xform_by :: "LMatrix4 \<Rightarrow> LMatrix4 \<Rightarrow> LMatrix4" where
  "xform_by a b =
     LMatrix4 (row_times (row_0 a) b) (row_times (row_1 a) b)
              (row_times (row_2 a) b) (row_times (row_3 a) b)"

definition translate_mat :: "LVecBase3 \<Rightarrow> LMatrix4" where
  "translate_mat p =
     LMatrix4 (LVecBase4 1 0 0 0) (LVecBase4 0 1 0 0) (LVecBase4 0 0 1 0)
              (LVecBase4 (v3_0 p) (v3_1 p) (v3_2 p) 1)"

definition scale_shear_mat :: "LVecBase3 \<Rightarrow> LVecBase3 \<Rightarrow> LMatrix4" where
  "scale_shear_mat sc sh =
     LMatrix4 (LVecBase4 (v3_0 sc) (v3_0 sh * v3_0 sc) (v3_1 sh * v3_0 sc) 0)
              (LVecBase4 0 (v3_1 sc) (v3_2 sh * v3_1 sc) 0)
              (LVecBase4 0 0 (v3_2 sc) 0)
              (LVecBase4 0 0 0 1)"

definition deg_2_rad :: "PN_stdfloat \<Rightarrow> PN_stdfloat" where
  "deg_2_rad a = a * pi / 180"

text \<open>Rotations about the up (z), right (x) and forward (y) axes, angles in degrees.\<close>

definition rotate_up :: "PN_stdfloat \<Rightarrow> LMatrix4" where
  "rotate_up a =
     LMatrix4 (LVecBase4 (cos (deg_2_rad a)) (sin (deg_2_rad a)) 0 0)
              (LVecBase4 (- sin (deg_2_rad a)) (cos (deg_2_rad a)) 0 0)
              (LVecBase4 0 0 1 0)
              (LVecBase4 0 0 0 1)"

definition rotate_right :: "PN_stdfloat \<Rightarrow> LMatrix4" where
  "rotate_right a =
     LMatrix4 (LVecBase4 1 0 0 0)
              (LVecBase4 0 (cos (deg_2_rad a)) (sin (deg_2_rad a)) 0)
              (LVecBase4 0 (- sin (deg_2_rad a)) (cos (deg_2_rad a)) 0)
              (LVecBase4 0 0 0 1)"

definition rotate_forward :: "PN_stdfloat \<Rightarrow> LMatrix4" where
  "rotate_forward a =
     LMatrix4 (LVecBase4 (cos (deg_2_rad a)) 0 (- sin (deg_2_rad a)) 0)
              (LVecBase4 0 1 0 0)
              (LVecBase4 (sin (deg_2_rad a)) 0 (cos (deg_2_rad a)) 0)
              (LVecBase4 0 0 0 1)"

text \<open>The rotation of a heading, pitch and roll: roll, then pitch, then heading.\<close>

definition rotation_of_hpr :: "LVecBase3 \<Rightarrow> LMatrix4" where
  "rotation_of_hpr hpr =
     xform_by (xform_by (rotate_forward (v3_2 hpr)) (rotate_right (v3_1 hpr)))
       (rotate_up (v3_0 hpr))"

text \<open>The rotation of a quaternion, which need not be normalised.\<close>

definition rotation_of_quat :: "LQuaternion \<Rightarrow> LMatrix4" where
  "rotation_of_quat q =
     (let n = q_r q * q_r q + q_i q * q_i q + q_j q * q_j q + q_k q * q_k q;
          s = (if n = 0 then 0 else 2 / n);
          xs = q_i q * s; ys = q_j q * s; zs = q_k q * s;
          wx = q_r q * xs; wy = q_r q * ys; wz = q_r q * zs;
          xx = q_i q * xs; xy = q_i q * ys; xz = q_i q * zs;
          yy = q_j q * ys; yz = q_j q * zs; zz = q_k q * zs
      in LMatrix4 (LVecBase4 (1 - (yy + zz)) (xy + wz) (xz - wy) 0)
                  (LVecBase4 (xy - wz) (1 - (xx + zz)) (yz + wx) 0)
                  (LVecBase4 (xz + wy) (yz - wx) (1 - (xx + yy)) 0)
                  (LVecBase4 0 0 0 1))"

text \<open>The matrix of scale and shear, then the rotation, then the translation.\<close>

definition compose_matrix :: "LVecBase3 \<Rightarrow> LVecBase3 \<Rightarrow> LMatrix4 \<Rightarrow> LVecBase3 \<Rightarrow> LMatrix4" where
  "compose_matrix sc sh rot p =
     xform_by (xform_by (scale_shear_mat sc sh) rot) (translate_mat p)"

text \<open>
  The determinant and the inverse of a 4x4 matrix from its 2x2 minors; \<open>invert_from\<close>
  has no result for a singular matrix.
\<close>

definition det4 :: "LMatrix4 \<Rightarrow> PN_stdfloat" where
  "det4 m =
     (let a00 = v4_0 (row_0 m); a01 = v4_1 (row_0 m); a02 = v4_2 (row_0 m); a03 = v4_3 (row_0 m);
          a10 = v4_0 (row_1 m); a11 = v4_1 (row_1 m); a12 = v4_2 (row_1 m); a13 = v4_3 (row_1 m);
          a20 = v4_0 (row_2 m); a21 = v4_1 (row_2 m); a22 = v4_2 (row_2 m); a23 = v4_3 (row_2 m);
          a30 = v4_0 (row_3 m); a31 = v4_1 (row_3 m); a32 = v4_2 (row_3 m); a33 = v4_3 (row_3 m);
          s0 = a00 * a11 - a10 * a01; s1 = a00 * a12 - a10 * a02; s2 = a00 * a13 - a10 * a03;
          s3 = a01 * a12 - a11 * a02; s4 = a01 * a13 - a11 * a03; s5 = a02 * a13 - a12 * a03;
          c5 = a22 * a33 - a32 * a23; c4 = a21 * a33 - a31 * a23; c3 = a21 * a32 - a31 * a22;
          c2 = a20 * a33 - a30 * a23; c1 = a20 * a32 - a30 * a22; c0 = a20 * a31 - a30 * a21
      in s0 * c5 - s1 * c4 + s2 * c3 + s3 * c2 - s4 * c1 + s5 * c0)"

definition invert_from :: "LMatrix4 \<Rightarrow> LMatrix4 option" where
  "invert_from m =
     (let a00 = v4_0 (row_0 m); a01 = v4_1 (row_0 m); a02 = v4_2 (row_0 m); a03 = v4_3 (row_0 m);
          a10 = v4_0 (row_1 m); a11 = v4_1 (row_1 m); a12 = v4_2 (row_1 m); a13 = v4_3 (row_1 m);
          a20 = v4_0 (row_2 m); a21 = v4_1 (row_2 m); a22 = v4_2 (row_2 m); a23 = v4_3 (row_2 m);
          a30 = v4_0 (row_3 m); a31 = v4_1 (row_3 m); a32 = v4_2 (row_3 m); a33 = v4_3 (row_3 m);
          s0 = a00 * a11 - a10 * a01; s1 = a00 * a12 - a10 * a02; s2 = a00 * a13 - a10 * a03;
          s3 = a01 * a12 - a11 * a02; s4 = a01 * a13 - a11 * a03; s5 = a02 * a13 - a12 * a03;
          c5 = a22 * a33 - a32 * a23; c4 = a21 * a33 - a31 * a23; c3 = a21 * a32 - a31 * a22;
          c2 = a20 * a33 - a30 * a23; c1 = a20 * a32 - a30 * a22; c0 = a20 * a31 - a30 * a21;
          d = det4 m
      in if d = 0 then None
         else Some (LMatrix4
           (LVecBase4 ((a11 * c5 - a12 * c4 + a13 * c3) / d) ((- a01 * c5 + a02 * c4 - a03 * c3) / d)
                      ((a31 * s5 - a32 * s4 + a33 * s3) / d) ((- a21 * s5 + a22 * s4 - a23 * s3) / d))
           (LVecBase4 ((- a10 * c5 + a12 * c2 - a13 * c1) / d) ((a00 * c5 - a02 * c2 + a03 * c1) / d)
                      ((- a30 * s5 + a32 * s2 - a33 * s1) / d) ((a20 * s5 - a22 * s2 + a23 * s1) / d))
           (LVecBase4 ((a10 * c4 - a11 * c2 + a13 * c0) / d) ((- a00 * c4 + a01 * c2 - a03 * c0) / d)
                      ((a30 * s4 - a31 * s2 + a33 * s0) / d) ((- a20 * s4 + a21 * s2 - a23 * s0) / d))
           (LVecBase4 ((- a10 * c3 + a11 * c1 - a12 * c0) / d) ((a00 * c3 - a01 * c1 + a02 * c0) / d)
                      ((- a30 * s3 + a31 * s1 - a32 * s0) / d) ((a20 * s3 - a21 * s1 + a22 * s0) / d))))"

text \<open>
  Modelled from the spec: \<^verbatim>\<open>do_calc_mat\<close> is not under src/.  "Component-given values
  derive the matrix": the matrix is built from scale, shear, rotation (the quaternion
  if that was given, the Euler angles otherwise) and position, stored, and flagged known.
\<close>

definition spec_do_calc_mat :: "TransformState \<Rightarrow> TransformState" where
  "spec_do_calc_mat t =
     t\<lparr>m_mat := compose_matrix (m_scale t) (m_shear t)
                  (if quat_given t then rotation_of_quat (m_quat t) else rotation_of_hpr (m_hpr t))
                  (m_pos t),
       m_flags := m_flags t OR F_mat_known\<rparr>"

text \<open>
  Modelled from the spec: \<^verbatim>\<open>calc_singular\<close> is not under src/.  Singularity "is a lazily
  derived flag", found by inverting the matrix; the inverse is "present only if
  non-singular".
\<close>

definition spec_calc_singular :: "TransformState \<Rightarrow> TransformState" where
  "spec_calc_singular t =
     (let t1 = (if m_flags t AND F_mat_known = 0 then spec_do_calc_mat t else t)
      in case invert_from (m_mat t1) of
           None \<Rightarrow>
             t1\<lparr>m_inv_mat := None, m_flags := m_flags t1 OR F_is_singular OR F_singular_known\<rparr>
         | Some im \<Rightarrow>
             t1\<lparr>m_inv_mat := Some im, m_flags := m_flags t1 OR F_singular_known\<rparr>)"

text \<open>
  An instance of the out-of-line members, for evaluating the inline functions on
  concrete objects.  The matrix and the singularity are derived as above; the
  derivations that need the library's decomposition, quaternion conversion or hashing
  mark their result as known and leave the stored representation as it is
  (\<open>calc_hash\<close> stores the hash \<open>h\<close>).
\<close>

definition reference_derivation :: "64 word \<Rightarrow> derivation" where
  "reference_derivation h =
     \<lparr>calc_hash = (\<lambda>t. t\<lparr>m_hash := h\<rparr>),
      calc_singular = spec_calc_singular,
      do_calc_components = (\<lambda>t. t\<lparr>m_flags := m_flags t OR F_components_known\<rparr>),
      do_calc_hpr = (\<lambda>t. t\<lparr>m_flags := m_flags t OR F_hpr_known\<rparr>),
      calc_quat = (\<lambda>t. t\<lparr>m_flags := m_flags t OR F_quat_known\<rparr>),
      calc_norm_quat = (\<lambda>t. t\<lparr>m_flags := m_flags t OR F_norm_quat_known\<rparr>),
      do_calc_mat = spec_do_calc_mat\<rparr>"

section \<open>Contracts of the out-of-line derivations\<close>

text \<open>
  Modelled from the spec: what the spec says of every out-of-line calculation, "if the
  backing flag is unset, compute it from whichever representation is authoritative, set
  the flag, and cache the result".  \<open>derives_known\<close> says so of a derivation at an
  object: afterwards the hash is no longer the sentinel and the flag of each derived
  representation is set; deriving the matrix leaves the 2-d flag as it was given.
\<close>

definition derives_known :: "64 word \<Rightarrow> derivation \<Rightarrow> TransformState \<Rightarrow> bool" where
  "derives_known H_unknown d t \<longleftrightarrow>
     m_hash (calc_hash d t) \<noteq> H_unknown \<and>
     m_flags (calc_singular d t) AND F_singular_known \<noteq> 0 \<and>
     m_flags (do_calc_components d t) AND F_components_known \<noteq> 0 \<and>
     m_flags (do_calc_hpr d t) AND F_hpr_known \<noteq> 0 \<and>
     m_flags (calc_quat d t) AND F_quat_known \<noteq> 0 \<and>
     m_flags (calc_norm_quat d t) AND F_norm_quat_known \<noteq> 0 \<and>
     m_flags (do_calc_mat d t) AND F_mat_known \<noteq> 0 \<and>
     is_2d (do_calc_mat d t) = is_2d t"

section \<open>Concrete objects\<close>

text \<open>
  An object whose components were given: position, rotation, scale and shear are
  stored and flagged known, the matrix, the inverse and the hash are not yet derived.
\<close>

definition components_state ::
  "LVecBase3 \<Rightarrow> LVecBase3 \<Rightarrow> LVecBase3 \<Rightarrow> LVecBase3 \<Rightarrow> 32 word \<Rightarrow> TransformState" where
  "components_state pos hpr scale shear extra_flags =
     \<lparr>m_pos = pos, m_hpr = hpr, m_scale = scale, m_shear = shear,
      m_quat = LQuaternion 1 0 0 0, m_norm_quat = LQuaternion 1 0 0 0,
      m_mat = ident_mat, m_inv_mat = None, m_hash = 0,
      m_flags = F_components_given OR F_hpr_given OR F_components_known OR F_hpr_known
                OR F_has_components OR extra_flags,
      m_composition_cache = [], m_invert_composition_cache = []\<rparr>"

text \<open>Statics after initialisation: the lock exists, the singletons are objects 0 and 1.\<close>

definition initialised_statics :: statics where
  "initialised_statics =
     \<lparr>s_states_lock = Some 0, s_identity_state = Some 0, s_invalid_state = Some 1\<rparr>"


text \<open>An object whose rotation was given as a quaternion.\<close>

definition quat_state ::
  "LVecBase3 \<Rightarrow> LQuaternion \<Rightarrow> LVecBase3 \<Rightarrow> LVecBase3 \<Rightarrow> TransformState" where
  "quat_state pos quat scale shear =
     \<lparr>m_pos = pos, m_hpr = LVecBase3_zero, m_scale = scale, m_shear = shear,
      m_quat = quat, m_norm_quat = LQuaternion 1 0 0 0,
      m_mat = ident_mat, m_inv_mat = None, m_hash = 0,
      m_flags = F_components_given OR F_quat_given OR F_components_known OR F_quat_known
                OR F_has_components,
      m_composition_cache = [], m_invert_composition_cache = []\<rparr>"

text \<open>An object given as a matrix: only the matrix is known.\<close>

definition matrix_candidate :: "LMatrix4 \<Rightarrow> TransformState" where
  "matrix_candidate m =
     \<lparr>m_pos = LVecBase3_zero, m_hpr = LVecBase3_zero, m_scale = LVecBase3_zero,
      m_shear = LVecBase3_zero,
      m_quat = LQuaternion 1 0 0 0, m_norm_quat = LQuaternion 1 0 0 0,
      m_mat = m, m_inv_mat = None, m_hash = 0,
      m_flags = F_mat_known,
      m_composition_cache = [], m_invert_composition_cache = []\<rparr>"

text \<open>
  An object given as a matrix whose components are known not to be derivable
  (\<^verbatim>\<open>F_components_known\<close> set, \<^verbatim>\<open>F_has_components\<close> clear).
\<close>

definition matrix_state :: "LMatrix4 \<Rightarrow> TransformState" where
  "matrix_state m =
     (matrix_candidate m)\<lparr>m_flags := F_mat_known OR F_components_known\<rparr>"

text \<open>A matrix that collapses the x axis: no rotation and scale can be read off it.\<close>

definition flat_mat :: LMatrix4 where
  "flat_mat = LMatrix4 (LVecBase4 0 0 0 0) (LVecBase4 0 1 0 0)
                       (LVecBase4 0 0 1 0) (LVecBase4 0 0 0 1)"

section \<open>The registry and the compositions, modelled from the spec\<close>

text \<open>
  Modelled from the spec: \<^verbatim>\<open>operator ==\<close> is not under src/.  "Two Transform Values are
  registry-equal if and only if they denote the same transform within a fixed numeric
  epsilon": the matrices, derived where they are not yet known, agree cell by cell
  within \<open>eps\<close>.  The 2-d flag belongs to the value compared: the spec keeps a value
  built by 2-d factories apart from one "built via general 4x4-matrix construction",
  which "reports is_2d() == false even if the matrix happens to have no out-of-plane
  component".
\<close>

definition transform_matrix :: "TransformState \<Rightarrow> LMatrix4" where
  "transform_matrix t =
     m_mat (if m_flags t AND F_mat_known = 0 then spec_do_calc_mat t else t)"

definition almost_equal4 :: "PN_stdfloat \<Rightarrow> LVecBase4 \<Rightarrow> LVecBase4 \<Rightarrow> bool" where
  "almost_equal4 eps a b \<longleftrightarrow>
     IS_NEARLY_EQUAL eps (v4_0 a) (v4_0 b) \<and> IS_NEARLY_EQUAL eps (v4_1 a) (v4_1 b) \<and>
     IS_NEARLY_EQUAL eps (v4_2 a) (v4_2 b) \<and> IS_NEARLY_EQUAL eps (v4_3 a) (v4_3 b)"

definition mat_almost_equal :: "PN_stdfloat \<Rightarrow> LMatrix4 \<Rightarrow> LMatrix4 \<Rightarrow> bool" where
  "mat_almost_equal eps a b \<longleftrightarrow>
     almost_equal4 eps (row_0 a) (row_0 b) \<and> almost_equal4 eps (row_1 a) (row_1 b) \<and>
     almost_equal4 eps (row_2 a) (row_2 b) \<and> almost_equal4 eps (row_3 a) (row_3 b)"

definition spec_equal :: "PN_stdfloat \<Rightarrow> TransformState \<Rightarrow> TransformState \<Rightarrow> bool" where
  "spec_equal eps a b \<longleftrightarrow>
     is_2d a = is_2d b \<and> mat_almost_equal eps (transform_matrix a) (transform_matrix b)"

text \<open>
  Modelled from the spec: \<^verbatim>\<open>init_states\<close> is not under src/.  The two singletons are
  "lazily constructed on first use of the subsystem and cached for the process
  lifetime"; the identity transform is the canonical instance of its value, the invalid
  transform denotes no value and is not looked up.
\<close>

definition identity_object :: TransformState where
  "identity_object =
     components_state LVecBase3_zero LVecBase3_zero (LVecBase3 1 1 1) LVecBase3_zero
       (F_mat_known OR F_uniform_scale OR F_identity_scale)"

definition invalid_object :: TransformState where
  "invalid_object =
     (matrix_candidate ident_mat)
       \<lparr>m_flags := F_is_singular OR F_singular_known OR F_components_known OR F_mat_known\<rparr>"

definition empty_world :: world where
  "empty_world =
     \<lparr>s_states_lock = None, s_identity_state = None, s_invalid_state = None,
      w_objects = [], w_states = []\<rparr>"

definition spec_init_states :: "world \<Rightarrow> world" where
  "spec_init_states w =
     (let n = length (w_objects w)
      in w\<lparr>s_states_lock := Some 0,
           s_identity_state := Some n,
           s_invalid_state := Some (Suc n),
           w_objects := w_objects w @ [identity_object, invalid_object],
           w_states := w_states w @ [n]\<rparr>)"

text \<open>
  Modelled from the spec: interning (\<^verbatim>\<open>return_new\<close>) is not under src/.
  \<open>intern(candidate)\<close> "looks up an existing entry whose value compares equal; if found,
  discards the candidate and returns the existing instance; otherwise inserts the
  candidate as the new canonical instance and returns it".  The hash only speeds the
  lookup up and is left out.
\<close>

definition spec_intern :: "PN_stdfloat \<Rightarrow> TransformState \<Rightarrow> world \<Rightarrow> addr option \<times> world" where
  "spec_intern eps candidate w =
     (case find (\<lambda>p. case deref w (Some p) of
                        None \<Rightarrow> False
                      | Some t \<Rightarrow> spec_equal eps t candidate) (w_states w) of
        Some p \<Rightarrow> (Some p, w)
      | None \<Rightarrow>
          (let n = length (w_objects w)
           in (Some n, w\<lparr>w_objects := w_objects w @ [candidate],
                          w_states := w_states w @ [n]\<rparr>)))"

text \<open>
  Modelled from the spec: the component factories are not under src/.  Each constructs
  "a fresh (uninterned) candidate" from the components it is given, and "all pass
  through Registry.intern"; a value built from 2-d factory operations "is flagged
  is_2d".  The scale flags are checked right after the scale is set, as
  \<^verbatim>\<open>check_uniform_scale\<close> and \<^verbatim>\<open>check_uniform_scale2d\<close> ask for.
\<close>

definition spec_make_pos_hpr_scale_shear ::
  "PN_stdfloat \<Rightarrow> LVecBase3 \<Rightarrow> LVecBase3 \<Rightarrow> LVecBase3 \<Rightarrow> LVecBase3 \<Rightarrow> world
     \<Rightarrow> addr option \<times> world" where
  "spec_make_pos_hpr_scale_shear eps pos hpr scale shear w =
     (let w1 = (if s_states_lock w = None then spec_init_states w else w)
      in spec_intern eps
           (check_uniform_scale eps (components_state pos hpr scale shear 0)) w1)"

definition spec_make_pos_quat_scale_shear ::
  "PN_stdfloat \<Rightarrow> LVecBase3 \<Rightarrow> LQuaternion \<Rightarrow> LVecBase3 \<Rightarrow> LVecBase3 \<Rightarrow> world
     \<Rightarrow> addr option \<times> world" where
  "spec_make_pos_quat_scale_shear eps pos quat scale shear w =
     (let w1 = (if s_states_lock w = None then spec_init_states w else w)
      in spec_intern eps (check_uniform_scale eps (quat_state pos quat scale shear)) w1)"

definition spec_make_pos_rotate_scale_shear2d ::
  "PN_stdfloat \<Rightarrow> LVecBase2 \<Rightarrow> PN_stdfloat \<Rightarrow> LVecBase2 \<Rightarrow> PN_stdfloat \<Rightarrow> world
     \<Rightarrow> addr option \<times> world" where
  "spec_make_pos_rotate_scale_shear2d eps pos rot scale shear w =
     (let w1 = (if s_states_lock w = None then spec_init_states w else w)
      in spec_intern eps
           (check_uniform_scale2d eps
              (components_state (LVecBase3 (v2_0 pos) (v2_1 pos) 0) (LVecBase3 rot 0 0)
                 (LVecBase3 (v2_0 scale) (v2_1 scale) 1) (LVecBase3 shear 0 0) F_is_2d)) w1)"

text \<open>
  Modelled from the spec: the construction from a matrix is not under src/.
  \<open>from_matrix(m)\<close> constructs a fresh candidate that passes through the interning like
  the others; "a value built via general 4x4-matrix construction with no 2-D factory
  call reports is_2d() == false".
\<close>

definition spec_from_matrix :: "PN_stdfloat \<Rightarrow> LMatrix4 \<Rightarrow> world \<Rightarrow> addr option \<times> world" where
  "spec_from_matrix eps m w =
     (let w1 = (if s_states_lock w = None then spec_init_states w else w)
      in spec_intern eps (matrix_candidate m) w1)"

text \<open>
  Modelled from the spec: \<^verbatim>\<open>compose\<close> is not under src/.  "If a is identity, return b;
  if b is identity, return a; if either is invalid, return the invalid singleton;
  otherwise look up b in a's composition cache: on hit return the cached result; on
  miss, compute the mathematical composition, intern it via the Registry, store it
  keyed by b in a's cache, and return it."
\<close>

definition spec_compose ::
  "PN_stdfloat \<Rightarrow> addr \<Rightarrow> addr option \<Rightarrow> world \<Rightarrow> addr option \<times> world" where
  "spec_compose eps this other w =
     (if is_identity w this then (other, w)
      else case other of
        None \<Rightarrow> (None, w)
      | Some b \<Rightarrow>
          if is_identity w b then (Some this, w)
          else if is_invalid w this \<or> is_invalid w b then (s_invalid_state w, w)
          else (case (deref w (Some this), deref w (Some b)) of
            (Some ta, Some tb) \<Rightarrow>
              (case map_of (m_composition_cache ta) b of
                 Some c \<Rightarrow> (c_result c, w)
               | None \<Rightarrow>
                   (let (r, w1) = spec_intern eps
                          (matrix_candidate (xform_by (transform_matrix tb) (transform_matrix ta))) w;
                        ta1 = ta\<lparr>m_composition_cache :=
                                   m_composition_cache ta @ [(b, \<lparr>c_result = r\<rparr>)]\<rparr>
                    in (r, w1\<lparr>w_objects := (w_objects w1)[this := ta1]\<rparr>)))
          | _ \<Rightarrow> (None, w)))"

text \<open>
  Modelled from the spec: \<^verbatim>\<open>invert_compose\<close> is not under src/.  It follows the "same
  cache-then-compute pattern using a separate cache keyed the same way" and is
  "contractually equivalent to composing a's inverse with b"; "inverting a singular
  matrix is not an error; it yields the invalid singleton".
\<close>

definition spec_invert_compose ::
  "PN_stdfloat \<Rightarrow> addr \<Rightarrow> addr option \<Rightarrow> world \<Rightarrow> addr option \<times> world" where
  "spec_invert_compose eps this other w =
     (case other of
        None \<Rightarrow> (None, w)
      | Some b \<Rightarrow>
          (case (deref w (Some this), deref w (Some b)) of
             (Some ta, Some tb) \<Rightarrow>
               (case map_of (m_invert_composition_cache ta) b of
                  Some c \<Rightarrow> (c_result c, w)
                | None \<Rightarrow>
                    (let ta1 = (if m_flags ta AND F_singular_known = 0
                                then spec_calc_singular ta else ta);
                         (r, w1) =
                           (if is_invalid w this \<or> is_invalid w b then (s_invalid_state w, w)
                            else case m_inv_mat ta1 of
                              None \<Rightarrow> (s_invalid_state w, w)
                            | Some ia \<Rightarrow>
                                spec_intern eps
                                  (matrix_candidate (xform_by (transform_matrix tb) ia)) w);
                         ta2 = ta1\<lparr>m_invert_composition_cache :=
                                     m_invert_composition_cache ta1 @ [(b, \<lparr>c_result = r\<rparr>)]\<rparr>
                     in (r, w1\<lparr>w_objects := (w_objects w1)[this := ta2]\<rparr>)))
           | _ \<Rightarrow> (None, w)))"

text \<open>The out-of-line functions as the spec describes them.\<close>

definition spec_outofline :: "PN_stdfloat \<Rightarrow> outofline" where
  "spec_outofline eps =
     \<lparr>init_states = spec_init_states,
      make_pos_hpr_scale_shear = spec_make_pos_hpr_scale_shear eps,
      make_pos_quat_scale_shear = spec_make_pos_quat_scale_shear eps,
      make_pos_rotate_scale_shear2d = spec_make_pos_rotate_scale_shear2d eps,
      invert_compose = spec_invert_compose eps\<rparr>"

text \<open>\<^verbatim>\<open>get_mat()\<close> called through a pointer: the object is read and written back.\<close>

definition get_mat_at ::
  "derivation \<Rightarrow> addr \<Rightarrow> world \<Rightarrow> LMatrix4 asserted option \<times> world" where
  "get_mat_at d p w =
     (case deref w (Some p) of
        None \<Rightarrow> (None, w)
      | Some t \<Rightarrow>
          (let (r, t1) = get_mat d w p t
           in (Some r, w\<lparr>w_objects := (w_objects w)[p := t1]\<rparr>)))"

section \<open>The process states the operations can reach\<close>

text \<open>
  What \<^verbatim>\<open>get_inverse_mat\<close> relies on, as a property of an object: once the singularity
  is known and the transform is not singular, the inverse is stored.
\<close>

definition singular_consistent :: "TransformState \<Rightarrow> bool" where
  "singular_consistent t \<longleftrightarrow>
     (m_flags t AND F_singular_known \<noteq> 0 \<and> m_flags t AND F_is_singular = 0
        \<longrightarrow> m_inv_mat t \<noteq> None)"

text \<open>The out-of-line calculations an accessor may run on the object it is called on.\<close>

definition calculations :: "derivation \<Rightarrow> (TransformState \<Rightarrow> TransformState) set" where
  "calculations d =
     {calc_hash d, calc_singular d, do_calc_components d, do_calc_hpr d, calc_quat d,
      calc_norm_quat d, do_calc_mat d}"

text \<open>A calculation run on the object at an address, through any accessor.\<close>

definition derive_at :: "(TransformState \<Rightarrow> TransformState) \<Rightarrow> addr \<Rightarrow> world \<Rightarrow> world" where
  "derive_at f p w =
     (if p < length (w_objects w)
      then w\<lparr>w_objects := (w_objects w)[p := f (w_objects w ! p)]\<rparr>
      else w)"

text \<open>
  The process states that arise from the empty one by the singleton factories, the
  component factories, the construction from a matrix, the compositions (all as modelled
  from the spec) and the lazy calculations of the accessors.
\<close>

inductive reachable :: "PN_stdfloat \<Rightarrow> 64 word \<Rightarrow> world \<Rightarrow> bool" for eps :: PN_stdfloat and h :: "64 word" where
  start: "reachable eps h empty_world"
| identity: "reachable eps h w \<Longrightarrow> reachable eps h (snd (make_identity (spec_outofline eps) w))"
| invalid: "reachable eps h w \<Longrightarrow> reachable eps h (snd (make_invalid (spec_outofline eps) w))"
| components:
    "reachable eps h w \<Longrightarrow>
     reachable eps h (snd (spec_make_pos_hpr_scale_shear eps pos hpr scale shear w))"
| components_quat:
    "reachable eps h w \<Longrightarrow>
     reachable eps h (snd (spec_make_pos_quat_scale_shear eps pos quat scale shear w))"
| components2d:
    "reachable eps h w \<Longrightarrow>
     reachable eps h (snd (spec_make_pos_rotate_scale_shear2d eps pos2 rot scale2 shear2 w))"
| matrix: "reachable eps h w \<Longrightarrow> reachable eps h (snd (spec_from_matrix eps m w))"
| composed: "reachable eps h w \<Longrightarrow> reachable eps h (snd (spec_compose eps a b w))"
| inverted: "reachable eps h w \<Longrightarrow> reachable eps h (snd (spec_invert_compose eps a b w))"
| derived:
    "reachable eps h w \<Longrightarrow> f \<in> calculations (reference_derivation h) \<Longrightarrow>
     reachable eps h (derive_at f p w)"

section \<open>Properties\<close>

lemmas flag_defs =
  F_is_singular_def F_singular_known_def F_components_given_def F_components_known_def
  F_has_components_def F_mat_known_def F_quat_given_def F_quat_known_def F_hpr_given_def
  F_hpr_known_def F_uniform_scale_def F_identity_scale_def F_has_nonzero_shear_def
  F_is_destructing_def F_is_2d_def F_norm_quat_known_def

lemma flag_test_iff: "(f AND flag_bit n = 0) = (\<not> bit f n)"
  by (simp add: flag_bit_def and_exp_eq_0_iff_not_bit)

lemma bit_flag_bit: "bit (flag_bit m) n = (m = n \<and> n < 32)"
  by (auto simp add: flag_bit_def bit_exp_iff)

lemma flag_bit_eq_0: "(flag_bit n = 0) = (32 \<le> n)"
  by (simp add: flag_bit_def)

lemmas flag_simps = flag_test_iff bit_or_iff bit_flag_bit flag_bit_eq_0

lemmas accessor_defs =
  get_pos_def get_hpr_def get_quat_def get_norm_quat_def get_scale_def get_uniform_scale_def
  get_shear_def get_mat_def get_inverse_mat_def get_pos2d_def get_rotate2d_def get_scale2d_def
  get_shear2d_def get_mat3_def

lemmas check_defs =
  check_hash_def check_singular_def check_components_def check_hpr_def check_quat_def
  check_norm_quat_def check_mat_def calc_components_def calc_hpr_def calc_mat_def

lemmas mat_defs = xform_by_def row_times_def dot4_def col_0_def col_1_def col_2_def col_3_def

lemmas compose_matrix_defs =
  compose_matrix_def rotation_of_hpr_def mat_defs scale_shear_mat_def rotate_up_def
  rotate_right_def rotate_forward_def deg_2_rad_def translate_mat_def

subsection \<open>The numeric library\<close>

text \<open>\<open>invert_from\<close> yields a right inverse whenever it yields a matrix.\<close>

lemma invert_from_right: "invert_from m = Some mi \<Longrightarrow> xform_by m mi = ident_mat"
proof -
  assume a: "invert_from m = Some mi"
  obtain r0 r1 r2 r3 where m: "m = LMatrix4 r0 r1 r2 r3" by (cases m)
  obtain a00 a01 a02 a03 where r0: "r0 = LVecBase4 a00 a01 a02 a03" by (cases r0)
  obtain a10 a11 a12 a13 where r1: "r1 = LVecBase4 a10 a11 a12 a13" by (cases r1)
  obtain a20 a21 a22 a23 where r2: "r2 = LVecBase4 a20 a21 a22 a23" by (cases r2)
  obtain a30 a31 a32 a33 where r3: "r3 = LVecBase4 a30 a31 a32 a33" by (cases r3)
  define d where "d = det4 m"
  have d: "d \<noteq> 0"
    using a by (auto simp: invert_from_def Let_def d_def split: if_splits)
  have dd: "d = (a00 * a11 - a10 * a01) * (a22 * a33 - a32 * a23)
              - (a00 * a12 - a10 * a02) * (a21 * a33 - a31 * a23)
              + (a00 * a13 - a10 * a03) * (a21 * a32 - a31 * a22)
              + (a01 * a12 - a11 * a02) * (a20 * a33 - a30 * a23)
              - (a01 * a13 - a11 * a03) * (a20 * a32 - a30 * a22)
              + (a02 * a13 - a12 * a03) * (a20 * a31 - a30 * a21)"
    by (simp add: d_def det4_def m r0 r1 r2 r3 Let_def)
  have dm: "det4 (LMatrix4 (LVecBase4 a00 a01 a02 a03) (LVecBase4 a10 a11 a12 a13)
                           (LVecBase4 a20 a21 a22 a23) (LVecBase4 a30 a31 a32 a33)) = d"
    by (simp add: d_def m r0 r1 r2 r3)
  have mi: "mi = the (invert_from m)" using a by simp
  have e: "x * (y / d) = (x * y) / d" for x y by simp
  show ?thesis
    unfolding mi
    apply (simp add: invert_from_def Let_def dm d m r0 r1 r2 r3 mat_defs ident_mat_def e
        add_divide_distrib[symmetric] diff_divide_distrib[symmetric] divide_eq_eq
        del: times_divide_eq_right)
    apply (intro conjI)
    apply (simp_all add: dd algebra_simps)
    done
qed

lemma compose_matrix_translation:
  "compose_matrix (LVecBase3 1 1 1) LVecBase3_zero (rotation_of_hpr LVecBase3_zero)
      (LVecBase3 1 2 3)
     = translate_mat (LVecBase3 1 2 3)"
  by (simp add: compose_matrix_defs LVecBase3_zero_def)

lemma invert_translation:
  "invert_from (translate_mat (LVecBase3 1 2 3)) = Some (translate_mat (LVecBase3 (-1) (-2) (-3)))"
  by (simp add: invert_from_def det4_def translate_mat_def Let_def)


subsection \<open>Concrete objects and the reference derivation\<close>

lemma components_state_sel:
  "m_scale (components_state p h s sh x) = s"
  "m_shear (components_state p h s sh x) = sh"
  "m_pos (components_state p h s sh x) = p"
  "m_hpr (components_state p h s sh x) = h"
  "m_hash (components_state p h s sh x) = 0"
  "m_inv_mat (components_state p h s sh x) = None"
  by (simp_all add: components_state_def)

lemma components_state_flags:
  "(m_flags (components_state p h s sh x) AND F_components_known = 0) = False"
  "(m_flags (components_state p h s sh x) AND F_has_components = 0) = False"
  "(m_flags (components_state p h s sh x) AND F_hpr_known = 0) = False"
  "(m_flags (components_state p h s sh x) AND F_mat_known = 0) = (x AND F_mat_known = 0)"
  "(m_flags (components_state p h s sh x) AND F_singular_known = 0) = (x AND F_singular_known = 0)"
  "(m_flags (components_state p h s sh x) AND F_is_singular = 0) = (x AND F_is_singular = 0)"
  "(m_flags (components_state p h s sh x) AND F_is_2d = 0) = (x AND F_is_2d = 0)"
  "(m_flags (components_state p h s sh x) AND F_uniform_scale = 0) = (x AND F_uniform_scale = 0)"
  "(m_flags (components_state p h s sh x) AND F_quat_given = 0) = (x AND F_quat_given = 0)"
  by (simp_all add: components_state_def flag_defs flag_simps)

lemma spec_calc_singular_known:
  "m_flags (spec_calc_singular t) AND F_singular_known \<noteq> 0"
  by (simp add: spec_calc_singular_def Let_def flag_defs flag_simps split: option.split)

lemma spec_do_calc_mat_known:
  "m_flags (spec_do_calc_mat t) AND F_mat_known \<noteq> 0"
  "is_2d (spec_do_calc_mat t) = is_2d t"
  by (simp_all add: spec_do_calc_mat_def is_2d_def flag_defs flag_simps)

lemma reference_derivation_derives_known:
  "h \<noteq> H_unknown \<Longrightarrow> derives_known H_unknown (reference_derivation h) t"
  by (simp add: derives_known_def reference_derivation_def spec_calc_singular_known
      spec_do_calc_mat_known)
     (simp add: flag_defs flag_simps)

lemma calc_singular_translation:
  "m_inv_mat (spec_calc_singular
      (components_state (LVecBase3 1 2 3) LVecBase3_zero (LVecBase3 1 1 1) LVecBase3_zero 0))
     = Some (translate_mat (LVecBase3 (-1) (-2) (-3)))"
  "m_flags (spec_calc_singular
      (components_state (LVecBase3 1 2 3) LVecBase3_zero (LVecBase3 1 1 1) LVecBase3_zero 0))
     AND F_is_singular = 0"
  by (simp_all add: spec_calc_singular_def spec_do_calc_mat_def Let_def components_state_flags
      components_state_sel quat_given_def compose_matrix_translation invert_translation)
     (simp_all add: components_state_def flag_defs flag_simps)


subsection \<open>Steps of the lazy derivation\<close>

lemma check_idem:
  assumes "derives_known H d t"
  shows "check_hash H d (check_hash H d t) = check_hash H d t"
    and "check_singular d (check_singular d t) = check_singular d t"
    and "check_components d (check_components d t) = check_components d t"
    and "check_hpr d (check_hpr d t) = check_hpr d t"
    and "check_quat d (check_quat d t) = check_quat d t"
    and "check_norm_quat d (check_norm_quat d t) = check_norm_quat d t"
    and "check_mat d (check_mat d t) = check_mat d t"
  using assms by (simp_all add: derives_known_def check_defs)

lemma check_uniform_scale2d_scale:
  "m_scale (check_uniform_scale2d eps t) =
     (if IS_NEARLY_EQUAL eps (v3_0 (m_scale t)) (v3_1 (m_scale t))
      then LVecBase3 (v3_0 (m_scale t)) (v3_1 (m_scale t)) (v3_0 (m_scale t))
      else m_scale t)"
  by (simp add: check_uniform_scale2d_def Let_def)

lemma check_uniform_scale2d_components_known:
  "(m_flags (check_uniform_scale2d eps t) AND F_components_known = 0) =
   (m_flags t AND F_components_known = 0)"
  by (simp add: check_uniform_scale2d_def Let_def flag_defs flag_simps)

lemma get_scale_known:
  "m_flags t AND F_components_known \<noteq> 0 \<Longrightarrow>
   get_scale d g this t = (nassertr (\<not> is_invalid g this) (m_scale t) (m_scale t), t)"
  by (simp add: get_scale_def check_components_def)

subsection \<open>The registry model\<close>

lemma make_identity_initialised:
  "s_states_lock w \<noteq> None \<Longrightarrow> make_identity x w = (s_identity_state w, w)"
  by (cases "s_states_lock w") (simp_all add: make_identity_def Let_def)

lemma make_invalid_initialised:
  "s_states_lock w \<noteq> None \<Longrightarrow> make_invalid x w = (s_invalid_state w, w)"
  by (cases "s_states_lock w") (simp_all add: make_invalid_def Let_def)

lemma xform_by_translations:
  "xform_by (translate_mat (LVecBase3 1 2 3)) (translate_mat (LVecBase3 (-1) (-2) (-3)))
     = ident_mat"
  "xform_by ident_mat (translate_mat (LVecBase3 (-1) (-2) (-3)))
     = translate_mat (LVecBase3 (-1) (-2) (-3))"
  by (simp_all add: mat_defs translate_mat_def ident_mat_def)

lemma transform_matrix_candidate: "transform_matrix (matrix_candidate m) = m"
  by (simp add: transform_matrix_def matrix_candidate_def flag_defs flag_simps)

lemma transform_matrix_identity: "transform_matrix identity_object = ident_mat"
  by (simp add: transform_matrix_def identity_object_def components_state_def
      flag_defs flag_simps)

lemma matrix_candidate_not_2d: "\<not> is_2d (matrix_candidate m)"
  by (simp add: is_2d_def matrix_candidate_def flag_defs flag_simps)

lemma identity_object_not_2d: "\<not> is_2d identity_object"
  by (simp add: is_2d_def identity_object_def components_state_def flag_defs flag_simps)










subsection \<open>The inverse is kept in every reachable state\<close>

lemma unknown_consistent: "m_flags t AND F_singular_known = 0 \<Longrightarrow> singular_consistent t"
  by (simp add: singular_consistent_def)


















subsection \<open>The inline factories\<close>

text \<open>What each inline factory hands over to.\<close>

lemma inline_factories_forward:
  "make_scale x s w = make_scale2d x s w \<and>
   make_scale x s w = make_pos_rotate_scale_shear2d x (LVecBase2 0 0) 0 (LVecBase2 s s) 0 w \<and>
   result_is_2d (make_scale x s w) = result_is_2d (make_scale2d x s w) \<and>
   make_scale2d_v x s2 w = make_pos_rotate_scale_shear2d x (LVecBase2 0 0) 0 s2 0 w \<and>
   make_pos2d x p2 w = make_pos_rotate_scale_shear2d x p2 0 (LVecBase2 1 1) 0 w \<and>
   make_rotate2d x r w = make_pos_rotate_scale_shear2d x (LVecBase2 0 0) r (LVecBase2 1 1) 0 w \<and>
   make_pos_rotate2d x p2 r w = make_pos_rotate_scale_shear2d x p2 r (LVecBase2 1 1) 0 w \<and>
   make_shear2d x sh w = make_pos_rotate_scale_shear2d x (LVecBase2 0 0) 0 (LVecBase2 1 1) sh w \<and>
   make_pos_rotate_scale2d x p2 r s2 w = make_pos_rotate_scale_shear2d x p2 r s2 0 w \<and>
   make_pos x p3 w =
     make_pos_hpr_scale_shear x p3 (LVecBase3 0 0 0) (LVecBase3 1 1 1) LVecBase3_zero w \<and>
   make_hpr x h3 w =
     make_pos_hpr_scale_shear x (LVecBase3 0 0 0) h3 (LVecBase3 1 1 1) LVecBase3_zero w \<and>
   make_pos_hpr x p3 h3 w = make_pos_hpr_scale_shear x p3 h3 (LVecBase3 1 1 1) LVecBase3_zero w \<and>
   make_scale_v x s3 w =
     make_pos_hpr_scale_shear x (LVecBase3 0 0 0) (LVecBase3 0 0 0) s3 LVecBase3_zero w \<and>
   make_shear x sh3 w =
     make_pos_hpr_scale_shear x (LVecBase3 0 0 0) (LVecBase3 0 0 0) (LVecBase3 1 1 1) sh3 w \<and>
   make_pos_hpr_scale x p3 h3 s3 w = make_pos_hpr_scale_shear x p3 h3 s3 LVecBase3_zero w \<and>
   make_quat x q w =
     make_pos_quat_scale_shear x (LVecBase3 0 0 0) q (LVecBase3 1 1 1) LVecBase3_zero w \<and>
   make_pos_quat x p3 q w = make_pos_quat_scale_shear x p3 q (LVecBase3 1 1 1) LVecBase3_zero w \<and>
   make_pos_quat_scale x p3 q s3 w = make_pos_quat_scale_shear x p3 q s3 LVecBase3_zero w \<and>
   is_2d t = (m_flags t AND F_is_2d \<noteq> 0)"
  by (simp add: make_scale_def make_scale2d_def make_scale2d_v_def make_pos2d_def
      make_rotate2d_def make_pos_rotate2d_def make_shear2d_def make_pos_rotate_scale2d_def
      make_pos_def make_hpr_def make_pos_hpr_def make_scale_v_def make_shear_def
      make_pos_hpr_scale_def make_quat_def make_pos_quat_def make_pos_quat_scale_def is_2d_def)


subsection \<open>C2: has_pos and has_mat\<close>

text \<open>
  C2.  For the object at any address, whatever the object holds (singular,
  non-decomposable or not), \<^verbatim>\<open>has_pos()\<close> and \<^verbatim>\<open>has_mat()\<close> are the negation of
  \<^verbatim>\<open>is_invalid()\<close>: they are false for the invalid singleton and for no other object.
\<close>

theorem C2_has_pos_has_mat_not_invalid:
  "has_pos g this = (\<not> is_invalid g this) \<and>
   has_mat g this = (\<not> is_invalid g this) \<and>
   ((\<not> has_pos g this) = (s_invalid_state g = Some this)) \<and>
   ((\<not> has_mat g this) = (s_invalid_state g = Some this))"
  by (auto simp add: has_pos_def has_mat_def is_invalid_def)

subsection \<open>C9: cache size and number of entries\<close>

text \<open>
  C9.  For every transform, \<^verbatim>\<open>get_composition_cache_size()\<close> returns what
  \<^verbatim>\<open>get_composition_cache_num_entries()\<close> returns, and
  \<^verbatim>\<open>get_invert_composition_cache_size()\<close> returns what
  \<^verbatim>\<open>get_invert_composition_cache_num_entries()\<close> returns: both read the entry count of
  the same cache.
\<close>

theorem C9_cache_size_is_num_entries:
  "get_composition_cache_size g t = get_composition_cache_num_entries g t \<and>
   get_invert_composition_cache_size g t = get_invert_composition_cache_num_entries g t"
  by (simp add: get_composition_cache_size_def get_composition_cache_num_entries_def
      get_invert_composition_cache_size_def get_invert_composition_cache_num_entries_def)

subsection \<open>C4: get_inverse_mat\<close>





subsection \<open>C6: what the accessors assert\<close>

text \<open>
  C6, as stated: every representation accessor reports an assertion failure when its
  \<^verbatim>\<open>has_*\<close> predicate is false.  It fails for \<^verbatim>\<open>get_scale\<close>: on a valid transform whose
  components are known not to be derivable, \<^verbatim>\<open>has_scale()\<close> is false and \<^verbatim>\<open>get_scale()\<close>
  returns the stored scale without an assertion failure.
\<close>

theorem C6_has_scale_false_no_assertion:
  "\<not> fst (has_scale (reference_derivation 0) (matrix_state flat_mat)) \<and>
   \<not> is_invalid initialised_statics 2 \<and>
   fst (get_scale (reference_derivation 0) initialised_statics 2 (matrix_state flat_mat))
     = Returned LVecBase3_zero"
  by (simp add: has_scale_def has_components_def check_components_def get_scale_def
      matrix_state_def matrix_candidate_def nassertr_def is_invalid_def initialised_statics_def
      flag_defs flag_simps)

text \<open>
  C6, amended.  Each accessor reports an assertion failure exactly when the condition
  of its own \<^verbatim>\<open>nassertr\<close> is false, and returns the stored component when it holds:
  \<^verbatim>\<open>has_pos()\<close> for \<^verbatim>\<open>get_pos\<close>; \<^verbatim>\<open>!is_invalid()\<close> for \<^verbatim>\<open>get_hpr\<close>, \<^verbatim>\<open>get_quat\<close>,
  \<^verbatim>\<open>get_norm_quat\<close>, \<^verbatim>\<open>get_scale\<close> and \<^verbatim>\<open>get_shear\<close>; \<^verbatim>\<open>has_uniform_scale()\<close> for
  \<^verbatim>\<open>get_uniform_scale\<close>, which returns \<^verbatim>\<open>_scale[0]\<close>; \<^verbatim>\<open>has_mat()\<close> for \<^verbatim>\<open>get_mat\<close>;
  \<^verbatim>\<open>has_pos() && is_2d()\<close> for \<^verbatim>\<open>get_pos2d\<close>, which returns x and y of \<^verbatim>\<open>_pos\<close>;
  \<^verbatim>\<open>!is_invalid() && is_2d()\<close> for \<^verbatim>\<open>get_rotate2d\<close> (the heading or roll of \<^verbatim>\<open>_hpr\<close>,
  signed by the coordinate system), \<^verbatim>\<open>get_scale2d\<close> and \<^verbatim>\<open>get_shear2d\<close>;
  \<^verbatim>\<open>has_mat() && is_2d()\<close> for \<^verbatim>\<open>get_mat3\<close> (rows and columns 0, 1 and 3 of \<^verbatim>\<open>_mat\<close>).
\<close>

theorem C6_accessors_assert_their_own_condition:
  "assertion_failed (fst (get_pos d g this t)) = (\<not> has_pos g this) \<and>
   result_of (fst (get_pos d g this t)) = m_pos (snd (get_pos d g this t)) \<and>
   assertion_failed (fst (get_hpr d g this t)) = is_invalid g this \<and>
   result_of (fst (get_hpr d g this t)) = m_hpr (snd (get_hpr d g this t)) \<and>
   assertion_failed (fst (get_quat d g this t)) = is_invalid g this \<and>
   result_of (fst (get_quat d g this t)) = m_quat (snd (get_quat d g this t)) \<and>
   assertion_failed (fst (get_norm_quat d g this t)) = is_invalid g this \<and>
   result_of (fst (get_norm_quat d g this t)) = m_norm_quat (snd (get_norm_quat d g this t)) \<and>
   assertion_failed (fst (get_scale d g this t)) = is_invalid g this \<and>
   result_of (fst (get_scale d g this t)) = m_scale (snd (get_scale d g this t)) \<and>
   assertion_failed (fst (get_shear d g this t)) = is_invalid g this \<and>
   result_of (fst (get_shear d g this t)) = m_shear (snd (get_shear d g this t)) \<and>
   assertion_failed (fst (get_uniform_scale d t)) =
     (\<not> fst (has_uniform_scale d (check_components d t))) \<and>
   result_of (fst (get_uniform_scale d t)) = v3_0 (m_scale (snd (get_uniform_scale d t))) \<and>
   assertion_failed (fst (get_mat d g this t)) = (\<not> has_mat g this) \<and>
   (has_mat g this \<longrightarrow>
      fst (get_mat d g this t) = Returned (m_mat (snd (get_mat d g this t)))) \<and>
   assertion_failed (fst (get_pos2d d g this t)) =
     (\<not> (has_pos g this \<and> is_2d (check_components d t))) \<and>
   (has_pos g this \<and> is_2d (check_components d t) \<longrightarrow>
      fst (get_pos2d d g this t) =
        Returned (LVecBase2 (v3_0 (m_pos (snd (get_pos2d d g this t))))
                            (v3_1 (m_pos (snd (get_pos2d d g this t)))))) \<and>
   assertion_failed (fst (get_rotate2d cs d g this t)) =
     (\<not> (\<not> is_invalid g this \<and> is_2d (check_hpr d t))) \<and>
   (\<not> is_invalid g this \<and> is_2d (check_hpr d t) \<longrightarrow>
      fst (get_rotate2d cs d g this t) =
        Returned (case cs of
                    CS_zup_left \<Rightarrow> - v3_0 (m_hpr (snd (get_rotate2d cs d g this t)))
                  | CS_yup_right \<Rightarrow> - v3_2 (m_hpr (snd (get_rotate2d cs d g this t)))
                  | CS_yup_left \<Rightarrow> v3_2 (m_hpr (snd (get_rotate2d cs d g this t)))
                  | _ \<Rightarrow> v3_0 (m_hpr (snd (get_rotate2d cs d g this t))))) \<and>
   assertion_failed (fst (get_scale2d d g this t)) =
     (\<not> (\<not> is_invalid g this \<and> is_2d (check_components d t))) \<and>
   (\<not> is_invalid g this \<and> is_2d (check_components d t) \<longrightarrow>
      fst (get_scale2d d g this t) =
        Returned (LVecBase2 (v3_0 (m_scale (snd (get_scale2d d g this t))))
                            (v3_1 (m_scale (snd (get_scale2d d g this t)))))) \<and>
   assertion_failed (fst (get_shear2d d g this t)) =
     (\<not> (\<not> is_invalid g this \<and> is_2d (check_components d t))) \<and>
   (\<not> is_invalid g this \<and> is_2d (check_components d t) \<longrightarrow>
      fst (get_shear2d d g this t) = Returned (v3_0 (m_shear (snd (get_shear2d d g this t))))) \<and>
   assertion_failed (fst (get_mat3 d g this t)) = (\<not> (has_mat g this \<and> is_2d t)) \<and>
   (has_mat g this \<and> is_2d t \<longrightarrow>
      fst (get_mat3 d g this t) =
        Returned (LMatrix3
          (v4_0 (row_0 (m_mat (snd (get_mat3 d g this t)))))
          (v4_1 (row_0 (m_mat (snd (get_mat3 d g this t)))))
          (v4_3 (row_0 (m_mat (snd (get_mat3 d g this t)))))
          (v4_0 (row_1 (m_mat (snd (get_mat3 d g this t)))))
          (v4_1 (row_1 (m_mat (snd (get_mat3 d g this t)))))
          (v4_3 (row_1 (m_mat (snd (get_mat3 d g this t)))))
          (v4_0 (row_3 (m_mat (snd (get_mat3 d g this t)))))
          (v4_1 (row_3 (m_mat (snd (get_mat3 d g this t)))))
          (v4_3 (row_3 (m_mat (snd (get_mat3 d g this t)))))))"
  by (simp add: accessor_defs nassertr_def Let_def split_def has_uniform_scale_def
           cong: CoordinateSystem.case_cong)

text \<open>
  A 2-d transform at (5, 7) with scale (2, 2), at an address that is not the invalid
  singleton: \<^verbatim>\<open>get_pos2d\<close> returns (5, 7), \<^verbatim>\<open>get_scale2d\<close> returns (2, 2),
  \<^verbatim>\<open>get_uniform_scale\<close> returns 2 and \<^verbatim>\<open>get_mat3\<close> returns the rows (2, 0, 0), (0, 2, 0)
  and (5, 7, 1).  A 2-d transform with heading 30 and roll 45: \<^verbatim>\<open>get_rotate2d\<close> returns
  -30 in \<^verbatim>\<open>CS_zup_left\<close> and 45 in \<^verbatim>\<open>CS_yup_left\<close>.
\<close>

theorem C6_accessors_witness:
  "has_pos initialised_statics 2 \<and>
   is_2d (check_uniform_scale2d (1 / 1000000)
      (components_state (LVecBase3 5 7 0) LVecBase3_zero (LVecBase3 2 2 1) LVecBase3_zero F_is_2d)) \<and>
   fst (get_pos2d (reference_derivation 0) initialised_statics 2
      (check_uniform_scale2d (1 / 1000000)
         (components_state (LVecBase3 5 7 0) LVecBase3_zero (LVecBase3 2 2 1) LVecBase3_zero F_is_2d)))
     = Returned (LVecBase2 5 7) \<and>
   fst (get_scale2d (reference_derivation 0) initialised_statics 2
      (check_uniform_scale2d (1 / 1000000)
         (components_state (LVecBase3 5 7 0) LVecBase3_zero (LVecBase3 2 2 1) LVecBase3_zero F_is_2d)))
     = Returned (LVecBase2 2 2) \<and>
   fst (get_uniform_scale (reference_derivation 0)
      (check_uniform_scale2d (1 / 1000000)
         (components_state (LVecBase3 5 7 0) LVecBase3_zero (LVecBase3 2 2 1) LVecBase3_zero F_is_2d)))
     = Returned 2 \<and>
   has_mat initialised_statics 2 \<and>
   fst (get_mat3 (reference_derivation 0) initialised_statics 2
      (check_uniform_scale2d (1 / 1000000)
         (components_state (LVecBase3 5 7 0) LVecBase3_zero (LVecBase3 2 2 1) LVecBase3_zero F_is_2d)))
     = Returned (LMatrix3 2 0 0 0 2 0 5 7 1) \<and>
   \<not> is_invalid initialised_statics 2 \<and>
   is_2d (check_hpr (reference_derivation 0)
      (components_state LVecBase3_zero (LVecBase3 30 0 45) (LVecBase3 1 1 1) LVecBase3_zero F_is_2d)) \<and>
   fst (get_rotate2d CS_zup_left (reference_derivation 0) initialised_statics 2
      (components_state LVecBase3_zero (LVecBase3 30 0 45) (LVecBase3 1 1 1) LVecBase3_zero F_is_2d))
     = Returned (- 30) \<and>
   fst (get_rotate2d CS_yup_left (reference_derivation 0) initialised_statics 2
      (components_state LVecBase3_zero (LVecBase3 30 0 45) (LVecBase3 1 1 1) LVecBase3_zero F_is_2d))
     = Returned 45"
proof -
  let ?t = "check_uniform_scale2d (1 / 1000000)
      (components_state (LVecBase3 5 7 0) LVecBase3_zero (LVecBase3 2 2 1) LVecBase3_zero F_is_2d)"
  let ?u = "components_state LVecBase3_zero (LVecBase3 30 0 45) (LVecBase3 1 1 1) LVecBase3_zero
      F_is_2d"
  let ?d = "reference_derivation 0"
  have k: "check_components ?d ?t = ?t"
    by (simp add: check_components_def check_uniform_scale2d_components_known
        components_state_flags)
  have f: "is_2d ?t" "m_flags ?t AND F_uniform_scale \<noteq> 0"
    by (simp_all add: is_2d_def check_uniform_scale2d_def Let_def components_state_sel
        IS_NEARLY_EQUAL_def)
       (simp_all add: components_state_def flag_defs flag_simps)
  have v: "m_pos ?t = LVecBase3 5 7 0" "m_scale ?t = LVecBase3 2 2 2"
    by (simp_all add: check_uniform_scale2d_def Let_def components_state_sel IS_NEARLY_EQUAL_def)
  have p: "has_pos initialised_statics 2" "\<not> is_invalid initialised_statics 2"
    "has_mat initialised_statics 2"
    by (simp_all add: has_pos_def has_mat_def is_invalid_def initialised_statics_def)
  have a: "\<not> assertion_failed (fst (get_uniform_scale ?d ?t))"
    by (simp add: get_uniform_scale_def has_uniform_scale_def k f nassertr_def Let_def)
  have r: "fst (get_uniform_scale ?d ?t) = Returned 2"
    using C6_accessors_assert_their_own_condition [of ?d initialised_statics 2 ?t] a
    by (cases "fst (get_uniform_scale ?d ?t)")
       (simp_all add: get_uniform_scale_def has_uniform_scale_def k v Let_def)
  have v2: "m_shear ?t = LVecBase3_zero" "m_hpr ?t = LVecBase3_zero"
    by (simp_all add: check_uniform_scale2d_def Let_def components_state_sel IS_NEARLY_EQUAL_def)
  have mk: "m_flags ?t AND F_mat_known = 0" "\<not> quat_given ?t"
    by (simp_all add: quat_given_def check_uniform_scale2d_def Let_def components_state_sel
        IS_NEARLY_EQUAL_def)
       (simp_all add: components_state_def flag_defs flag_simps)
  have m: "m_mat (snd (get_mat3 ?d initialised_statics 2 ?t)) =
      LMatrix4 (LVecBase4 2 0 0 0) (LVecBase4 0 2 0 0) (LVecBase4 0 0 2 0) (LVecBase4 5 7 0 1)"
  proof -
    have "m_mat (snd (get_mat3 ?d initialised_statics 2 ?t)) =
        compose_matrix (LVecBase3 2 2 2) LVecBase3_zero (rotation_of_hpr LVecBase3_zero)
          (LVecBase3 5 7 0)"
      using p f mk
      by (simp add: get_mat3_def Let_def check_mat_def calc_mat_def reference_derivation_def
          spec_do_calc_mat_def v v2)
    then show ?thesis
      by (simp add: compose_matrix_defs LVecBase3_zero_def)
  qed
  have hu: "check_hpr ?d ?u = ?u"
    by (simp add: check_hpr_def components_state_flags)
  have u2: "is_2d ?u"
    by (simp add: is_2d_def components_state_flags) (simp add: flag_defs flag_simps)
  have ru: "snd (get_rotate2d cs ?d initialised_statics 2 ?u) = ?u" for cs
    by (simp add: get_rotate2d_def Let_def hu)
  have r1: "fst (get_rotate2d CS_zup_left ?d initialised_statics 2 ?u) = Returned (- 30)"
    using C6_accessors_assert_their_own_condition
      [where d = ?d and g = initialised_statics and this = 2 and t = ?u and cs = CS_zup_left]
      p hu u2
    by (simp add: ru components_state_sel)
  have r2: "fst (get_rotate2d CS_yup_left ?d initialised_statics 2 ?u) = Returned 45"
    using C6_accessors_assert_their_own_condition
      [where d = ?d and g = initialised_statics and this = 2 and t = ?u and cs = CS_yup_left]
      p hu u2
    by (simp add: ru components_state_sel)
  have g3: "fst (get_mat3 ?d initialised_statics 2 ?t) = Returned (LMatrix3 2 0 0 0 2 0 5 7 1)"
    using C6_accessors_assert_their_own_condition [of ?d initialised_statics 2 ?t] p f
    by (simp add: m)
  have g12: "fst (get_pos2d ?d initialised_statics 2 ?t) = Returned (LVecBase2 5 7)"
    "fst (get_scale2d ?d initialised_statics 2 ?t) = Returned (LVecBase2 2 2)"
    using C6_accessors_assert_their_own_condition [of ?d initialised_statics 2 ?t] k f v p
    by (simp_all add: get_pos2d_def get_scale2d_def Let_def)
  show ?thesis
    using p f r g3 g12 hu u2 r1 r2 by simp
qed

subsection \<open>C7: repeating an accessor\<close>

text \<open>
  C7.  Calling the same accessor twice returns the same result, and the second call
  leaves the object as the first one left it.  \<^verbatim>\<open>get_hash()\<close> calculates the hash only
  while it is the sentinel \<^verbatim>\<open>H_unknown\<close>: when it is already known the object is
  returned untouched, and after any call it is known, so no later call calculates
  again.  The out-of-line calculations are any that meet their contract
  \<open>derives_known\<close>.
\<close>

theorem C7_repeated_accessor_same_result:
  assumes "derives_known H_unknown d t"
  shows "get_hash H_unknown d (snd (get_hash H_unknown d t)) = get_hash H_unknown d t \<and>
         m_hash (snd (get_hash H_unknown d t)) \<noteq> H_unknown \<and>
         (m_hash t \<noteq> H_unknown \<longrightarrow> get_hash H_unknown d t = (m_hash t, t)) \<and>
         get_pos d g this (snd (get_pos d g this t)) = get_pos d g this t \<and>
         get_hpr d g this (snd (get_hpr d g this t)) = get_hpr d g this t \<and>
         get_quat d g this (snd (get_quat d g this t)) = get_quat d g this t \<and>
         get_norm_quat d g this (snd (get_norm_quat d g this t)) = get_norm_quat d g this t \<and>
         get_scale d g this (snd (get_scale d g this t)) = get_scale d g this t \<and>
         get_uniform_scale d (snd (get_uniform_scale d t)) = get_uniform_scale d t \<and>
         get_shear d g this (snd (get_shear d g this t)) = get_shear d g this t \<and>
         get_mat d g this (snd (get_mat d g this t)) = get_mat d g this t \<and>
         get_inverse_mat d (snd (get_inverse_mat d t)) = get_inverse_mat d t \<and>
         get_pos2d d g this (snd (get_pos2d d g this t)) = get_pos2d d g this t \<and>
         get_rotate2d cs d g this (snd (get_rotate2d cs d g this t)) = get_rotate2d cs d g this t \<and>
         get_scale2d d g this (snd (get_scale2d d g this t)) = get_scale2d d g this t \<and>
         get_shear2d d g this (snd (get_shear2d d g this t)) = get_shear2d d g this t \<and>
         get_mat3 d g this (snd (get_mat3 d g this t)) = get_mat3 d g this t"
proof -
  note i = check_idem [OF assms]
  have h: "get_hash H_unknown d (snd (get_hash H_unknown d t)) = get_hash H_unknown d t"
    by (simp add: get_hash_def Let_def i)
  have k: "m_hash (snd (get_hash H_unknown d t)) \<noteq> H_unknown"
    using assms by (simp add: get_hash_def Let_def check_hash_def derives_known_def)
  have u: "m_hash t \<noteq> H_unknown \<longrightarrow> get_hash H_unknown d t = (m_hash t, t)"
    by (simp add: get_hash_def Let_def check_hash_def)
  have a: "get_pos d g this (snd (get_pos d g this t)) = get_pos d g this t"
    "get_hpr d g this (snd (get_hpr d g this t)) = get_hpr d g this t"
    "get_quat d g this (snd (get_quat d g this t)) = get_quat d g this t"
    "get_norm_quat d g this (snd (get_norm_quat d g this t)) = get_norm_quat d g this t"
    "get_scale d g this (snd (get_scale d g this t)) = get_scale d g this t"
    "get_shear d g this (snd (get_shear d g this t)) = get_shear d g this t"
    "get_pos2d d g this (snd (get_pos2d d g this t)) = get_pos2d d g this t"
    "get_rotate2d cs d g this (snd (get_rotate2d cs d g this t)) = get_rotate2d cs d g this t"
    "get_scale2d d g this (snd (get_scale2d d g this t)) = get_scale2d d g this t"
    "get_shear2d d g this (snd (get_shear2d d g this t)) = get_shear2d d g this t"
    by (simp_all add: accessor_defs Let_def i)
  have us: "get_uniform_scale d (snd (get_uniform_scale d t)) = get_uniform_scale d t"
    by (simp add: get_uniform_scale_def has_uniform_scale_def Let_def i)
  have m: "get_mat d g this (snd (get_mat d g this t)) = get_mat d g this t"
    by (simp add: get_mat_def Let_def i)
  have im: "get_inverse_mat d (snd (get_inverse_mat d t)) = get_inverse_mat d t"
    by (simp add: get_inverse_mat_def is_singular_def Let_def i)
  have m3: "get_mat3 d g this (snd (get_mat3 d g this t)) = get_mat3 d g this t"
  proof (cases "m_flags t AND F_mat_known = 0")
    case True
    then show ?thesis
      using assms
      by (simp add: get_mat3_def Let_def check_mat_def calc_mat_def derives_known_def)
  next
    case False
    then show ?thesis
      by (simp add: get_mat3_def Let_def check_mat_def)
  qed
  show ?thesis
    using h k u a us m im m3 by simp
qed

text \<open>
  With the sentinel 0 and a calculation that yields the hash 5: the first call on an
  object of unknown hash returns 5, and so does the call after it.
\<close>

theorem C7_repeated_accessor_witness:
  "derives_known 0 (reference_derivation 5)
      (components_state (LVecBase3 1 2 3) LVecBase3_zero (LVecBase3 1 1 1) LVecBase3_zero 0) \<and>
   fst (get_hash 0 (reference_derivation 5)
      (components_state (LVecBase3 1 2 3) LVecBase3_zero (LVecBase3 1 1 1) LVecBase3_zero 0)) = 5 \<and>
   fst (get_hash 0 (reference_derivation 5)
      (snd (get_hash 0 (reference_derivation 5)
        (components_state (LVecBase3 1 2 3) LVecBase3_zero (LVecBase3 1 1 1) LVecBase3_zero 0)))) = 5"
proof -
  let ?t = "components_state (LVecBase3 1 2 3) LVecBase3_zero (LVecBase3 1 1 1) LVecBase3_zero 0"
  have d: "derives_known 0 (reference_derivation 5) ?t"
    by (rule reference_derivation_derives_known) simp
  have f: "fst (get_hash 0 (reference_derivation 5) ?t) = 5"
    by (simp add: get_hash_def check_hash_def Let_def components_state_sel
        reference_derivation_def)
  show ?thesis
    using C7_repeated_accessor_same_result [OF d, of initialised_statics 2 CS_default] d f
    by simp
qed

subsection \<open>C10: the 2-d uniform-scale check\<close>

text \<open>
  C10.  \<^verbatim>\<open>check_uniform_scale2d\<close> overwrites \<^verbatim>\<open>_scale[2]\<close> with \<^verbatim>\<open>_scale[0]\<close> whenever the x
  and y scales are nearly equal, and leaves the scale untouched when they are not.
  On an object whose components are known (the check follows the setting of the
  scale) and which is not the invalid singleton, \<^verbatim>\<open>get_scale()\<close> then returns that
  scale, so a uniform 2-d scale is reported on the z axis too.
\<close>

theorem C10_check_uniform_scale2d_overwrites_z:
  "(IS_NEARLY_EQUAL eps (v3_0 (m_scale t)) (v3_1 (m_scale t)) \<longrightarrow>
      m_scale (check_uniform_scale2d eps t) =
        LVecBase3 (v3_0 (m_scale t)) (v3_1 (m_scale t)) (v3_0 (m_scale t))) \<and>
   (\<not> IS_NEARLY_EQUAL eps (v3_0 (m_scale t)) (v3_1 (m_scale t)) \<longrightarrow>
      m_scale (check_uniform_scale2d eps t) = m_scale t) \<and>
   (m_flags t AND F_components_known \<noteq> 0 \<and> \<not> is_invalid g this \<longrightarrow>
      get_scale d g this (check_uniform_scale2d eps t) =
        (Returned (m_scale (check_uniform_scale2d eps t)), check_uniform_scale2d eps t))"
  by (simp add: check_uniform_scale2d_scale get_scale_known
      check_uniform_scale2d_components_known nassertr_def)

text \<open>
  The 2-d scale (2, 2) is reported as (2, 2, 2); the 2-d scale (2, 3) keeps the z
  scale 1 it was stored with.
\<close>

theorem C10_check_uniform_scale2d_witness:
  "IS_NEARLY_EQUAL (1 / 1000000) 2 2 \<and>
   \<not> is_invalid initialised_statics 2 \<and>
   fst (get_scale (reference_derivation 0) initialised_statics 2
     (check_uniform_scale2d (1 / 1000000)
        (components_state LVecBase3_zero LVecBase3_zero (LVecBase3 2 2 1) LVecBase3_zero F_is_2d)))
     = Returned (LVecBase3 2 2 2) \<and>
   \<not> IS_NEARLY_EQUAL (1 / 1000000) 2 3 \<and>
   fst (get_scale (reference_derivation 0) initialised_statics 2
     (check_uniform_scale2d (1 / 1000000)
        (components_state LVecBase3_zero LVecBase3_zero (LVecBase3 2 3 1) LVecBase3_zero F_is_2d)))
     = Returned (LVecBase3 2 3 1)"
  using C10_check_uniform_scale2d_overwrites_z
          [of "1 / 1000000"
              "components_state LVecBase3_zero LVecBase3_zero (LVecBase3 2 2 1) LVecBase3_zero F_is_2d"
              initialised_statics 2 "reference_derivation 0"]
        C10_check_uniform_scale2d_overwrites_z
          [of "1 / 1000000"
              "components_state LVecBase3_zero LVecBase3_zero (LVecBase3 2 3 1) LVecBase3_zero F_is_2d"
              initialised_statics 2 "reference_derivation 0"]
  by (simp add: IS_NEARLY_EQUAL_def is_invalid_def initialised_statics_def
      components_state_flags components_state_sel)

subsection \<open>C1: the two singletons\<close>

text \<open>
  C1.  \<^verbatim>\<open>make_identity()\<close> and \<^verbatim>\<open>make_invalid()\<close> return the same pointer on every call.
  The first call of either constructs the singletons by \<^verbatim>\<open>init_states\<close> when the lock
  does not exist yet; once it exists a call returns the stored pointer and changes
  nothing.  \<^verbatim>\<open>is_identity()\<close> and \<^verbatim>\<open>is_invalid()\<close> hold of an address exactly when it is
  the pointer of the identity resp. the invalid singleton, so an object at another
  address is not the singleton even when it holds the same value.  \<^verbatim>\<open>init_states\<close> is any
  function that creates the lock.
\<close>

theorem C1_singletons_constructed_once:
  assumes "s_states_lock w = None \<longrightarrow> s_states_lock (init_states x w) \<noteq> None"
  shows "(let (p1, w1) = make_identity x w;
              (q1, w2) = make_invalid x w1;
              (p2, w3) = make_identity x w2;
              (q2, w4) = make_invalid x w3
          in p2 = p1 \<and> q2 = q1 \<and> w2 = w1 \<and> w3 = w1 \<and> w4 = w1 \<and>
             (\<forall>t. is_identity w1 t = (p1 = Some t)) \<and>
             (\<forall>t. is_invalid w1 t = (q1 = Some t))) \<and>
         (s_states_lock w \<noteq> None \<longrightarrow>
            make_identity x w = (s_identity_state w, w) \<and>
            make_invalid x w = (s_invalid_state w, w)) \<and>
         (s_states_lock w = None \<longrightarrow>
            snd (make_identity x w) = init_states x w \<and>
            snd (make_invalid x w) = init_states x w) \<and>
         (\<forall>t. is_identity w t = (s_identity_state w = Some t) \<and>
              is_invalid w t = (s_invalid_state w = Some t)) \<and>
         (\<forall>p q. is_identity w p \<and> q \<noteq> p \<and> deref w (Some q) = deref w (Some p)
              \<longrightarrow> \<not> is_identity w q) \<and>
         (\<forall>p q. is_invalid w p \<and> q \<noteq> p \<and> deref w (Some q) = deref w (Some p)
              \<longrightarrow> \<not> is_invalid w q)"
proof -
  define w1 where "w1 = (if s_states_lock w = None then init_states x w else w)"
  have l: "s_states_lock w1 \<noteq> None"
    using assms by (simp add: w1_def)
  have a: "make_identity x w = (s_identity_state w1, w1)"
    by (simp add: make_identity_def w1_def Let_def)
  have b: "make_identity x w1 = (s_identity_state w1, w1)"
    "make_invalid x w1 = (s_invalid_state w1, w1)"
    using l by (simp_all add: make_identity_initialised make_invalid_initialised)
  have c1: "(let (p1, w1) = make_identity x w;
              (q1, w2) = make_invalid x w1;
              (p2, w3) = make_identity x w2;
              (q2, w4) = make_invalid x w3
          in p2 = p1 \<and> q2 = q1 \<and> w2 = w1 \<and> w3 = w1 \<and> w4 = w1 \<and>
             (\<forall>t. is_identity w1 t = (p1 = Some t)) \<and>
             (\<forall>t. is_invalid w1 t = (q1 = Some t)))"
    by (simp add: a b is_identity_def is_invalid_def eq_commute)
  have c2: "s_states_lock w \<noteq> None \<longrightarrow>
            make_identity x w = (s_identity_state w, w) \<and>
            make_invalid x w = (s_invalid_state w, w)"
    by (simp add: make_identity_initialised make_invalid_initialised)
  have c3: "s_states_lock w = None \<longrightarrow>
            snd (make_identity x w) = init_states x w \<and>
            snd (make_invalid x w) = init_states x w"
    by (simp add: make_identity_def make_invalid_def Let_def)
  have c4: "\<forall>t. is_identity w t = (s_identity_state w = Some t) \<and>
              is_invalid w t = (s_invalid_state w = Some t)"
    by (simp add: is_identity_def is_invalid_def eq_commute)
  have c5: "\<forall>p q. is_identity w p \<and> q \<noteq> p \<and> deref w (Some q) = deref w (Some p)
              \<longrightarrow> \<not> is_identity w q"
    by (simp add: is_identity_def) (metis option.inject)
  have c6: "\<forall>p q. is_invalid w p \<and> q \<noteq> p \<and> deref w (Some q) = deref w (Some p)
              \<longrightarrow> \<not> is_invalid w q"
    by (simp add: is_invalid_def) (metis option.inject)
  show ?thesis
    using c1 c2 c3 c4 c5 c6 by blast
qed


text \<open>
  In the empty process state, with the initialisation modelled from the spec: the
  identity singleton is object 0 on the first and on a later call, the invalid singleton
  is object 1.  Where a third object holds the value of the identity singleton, it is
  not the identity: \<^verbatim>\<open>is_identity()\<close> holds of address 0 and not of address 2.
\<close>

theorem C1_singletons_witness:
  "s_states_lock (init_states (spec_outofline (1 / 1000000)) empty_world) \<noteq> None \<and>
   fst (make_identity (spec_outofline (1 / 1000000)) empty_world) = Some 0 \<and>
   fst (make_invalid (spec_outofline (1 / 1000000))
          (snd (make_identity (spec_outofline (1 / 1000000)) empty_world))) = Some 1 \<and>
   fst (make_identity (spec_outofline (1 / 1000000))
          (snd (make_invalid (spec_outofline (1 / 1000000))
             (snd (make_identity (spec_outofline (1 / 1000000)) empty_world))))) = Some 0 \<and>
   is_identity (snd (make_identity (spec_outofline (1 / 1000000)) empty_world)) 0 \<and>
   \<not> is_identity (snd (make_identity (spec_outofline (1 / 1000000)) empty_world)) 1 \<and>
   is_identity
     ((spec_init_states empty_world)
        \<lparr>w_objects := [identity_object, invalid_object, identity_object]\<rparr>) 0 \<and>
   deref
     ((spec_init_states empty_world)
        \<lparr>w_objects := [identity_object, invalid_object, identity_object]\<rparr>) (Some 2)
     = deref
         ((spec_init_states empty_world)
            \<lparr>w_objects := [identity_object, invalid_object, identity_object]\<rparr>) (Some 0) \<and>
   \<not> is_identity
     ((spec_init_states empty_world)
        \<lparr>w_objects := [identity_object, invalid_object, identity_object]\<rparr>) 2"
proof -
  let ?x = "spec_outofline (1 / 1000000)"
  let ?w = "(spec_init_states empty_world)
              \<lparr>w_objects := [identity_object, invalid_object, identity_object]\<rparr>"
  have i: "init_states ?x = spec_init_states"
    by (simp add: spec_outofline_def)
  have e: "s_states_lock empty_world = None" "w_objects empty_world = []"
    by (simp_all add: empty_world_def)
  have h: "s_states_lock empty_world = None \<longrightarrow>
           s_states_lock (init_states ?x empty_world) \<noteq> None"
    by (simp add: i spec_init_states_def Let_def)
  have a: "fst (make_identity ?x empty_world) = Some 0"
    by (simp add: make_identity_def i e spec_init_states_def Let_def)
  have b: "fst (make_invalid ?x (snd (make_identity ?x empty_world))) = Some 1"
    by (simp add: make_identity_def make_invalid_def i e spec_init_states_def Let_def)
  have t: "fst (make_identity ?x (snd (make_invalid ?x (snd (make_identity ?x empty_world)))))
             = fst (make_identity ?x empty_world) \<and>
           (\<forall>t. is_identity (snd (make_identity ?x empty_world)) t =
                  (fst (make_identity ?x empty_world) = Some t))"
    using C1_singletons_constructed_once [OF h]
    unfolding split_def Let_def by blast
  have h2: "s_states_lock ?w = None \<longrightarrow> s_states_lock (init_states ?x ?w) \<noteq> None"
    by (simp add: spec_init_states_def Let_def)
  have w0: "is_identity ?w 0"
    by (simp add: is_identity_def spec_init_states_def Let_def e)
  have wd: "deref ?w (Some 2) = deref ?w (Some 0)"
    by (simp add: deref_def)
  have u: "\<forall>p q. is_identity ?w p \<and> q \<noteq> p \<and> deref ?w (Some q) = deref ?w (Some p)
              \<longrightarrow> \<not> is_identity ?w q"
    using C1_singletons_constructed_once [OF h2] by blast
  have w2: "\<not> is_identity ?w 2"
    using u w0 wd by (metis zero_neq_numeral)
  show ?thesis
    using C1_singletons_constructed_once [OF h] t a b h e w0 wd w2 by simp
qed

subsection \<open>C3: the 2-d flag and the factories\<close>




subsection \<open>C8: the translation scenario\<close>

text \<open>
  C8.  With the registry, the factories and the compositions modelled from the spec,
  starting from the empty process state: \<^verbatim>\<open>make_pos_hpr_scale((1,2,3),(0,0,0),(1,1,1))\<close>
  returns an instance \<open>t\<close> whose \<^verbatim>\<open>get_mat()\<close> is the translation by (1, 2, 3);
  composing \<open>t\<close> with \<^verbatim>\<open>make_identity()\<close> returns the pointer \<open>t\<close> itself; and composing
  \<^verbatim>\<open>get_inverse()\<close> of \<open>t\<close> with \<open>t\<close> returns the pointer of the identity singleton.
\<close>

theorem C8_translation_scenario:
  "(let X = spec_outofline (1 / 1000000);
        D = reference_derivation 1;
        (t, w1) = make_pos_hpr_scale X (LVecBase3 1 2 3) (LVecBase3 0 0 0) (LVecBase3 1 1 1)
                    empty_world;
        (m, w2) = get_mat_at D (the t) w1;
        (i, w3) = make_identity X w2;
        (c, w4) = spec_compose (1 / 1000000) (the t) i w3;
        (v, w5) = get_inverse X (the t) w4;
        (e, w6) = spec_compose (1 / 1000000) (the v) t w5
    in t = Some 2 \<and>
       m = Some (Returned (translate_mat (LVecBase3 1 2 3))) \<and>
       c = t \<and>
       v = Some 3 \<and>
       e = i \<and> i = Some 0 \<and> is_identity w6 0)"
proof -
  define eps :: real where "eps = 1 / 1000000"
  define X where "X = spec_outofline eps"
  define D where "D = reference_derivation 1"
  define t0 where "t0 = check_uniform_scale eps
      (components_state (LVecBase3 1 2 3) (LVecBase3 0 0 0) (LVecBase3 1 1 1) LVecBase3_zero 0)"
  define t1 where "t1 = spec_do_calc_mat t0"
  define sc where "sc = spec_calc_singular t1"
  define t2 where "t2 = sc\<lparr>m_invert_composition_cache :=
      m_invert_composition_cache sc @ [(0, \<lparr>c_result = Some 3\<rparr>)]\<rparr>"
  define ti where "ti = matrix_candidate (translate_mat (LVecBase3 (-1) (-2) (-3)))"
  define ti1 where "ti1 = ti\<lparr>m_composition_cache :=
      m_composition_cache ti @ [(2, \<lparr>c_result = Some 0\<rparr>)]\<rparr>"
  define W1 :: world where "W1 =
    \<lparr>s_states_lock = Some 0, s_identity_state = Some 0, s_invalid_state = Some 1,
     w_objects = [identity_object, invalid_object, t0], w_states = [0, 2]\<rparr>"
  define W2 :: world where "W2 =
    \<lparr>s_states_lock = Some 0, s_identity_state = Some 0, s_invalid_state = Some 1,
     w_objects = [identity_object, invalid_object, t1], w_states = [0, 2]\<rparr>"
  define W5 :: world where "W5 =
    \<lparr>s_states_lock = Some 0, s_identity_state = Some 0, s_invalid_state = Some 1,
     w_objects = [identity_object, invalid_object, t2, ti], w_states = [0, 2, 3]\<rparr>"
  define W6 :: world where "W6 =
    \<lparr>s_states_lock = Some 0, s_identity_state = Some 0, s_invalid_state = Some 1,
     w_objects = [identity_object, invalid_object, t2, ti1], w_states = [0, 2, 3]\<rparr>"
  have f0: "m_flags t0 = F_components_given OR F_hpr_given OR F_components_known OR F_hpr_known
              OR F_has_components OR F_uniform_scale OR F_identity_scale"
    by (simp add: t0_def eps_def check_uniform_scale_def Let_def components_state_sel
        IS_NEARLY_EQUAL_def almost_equal_def LVecBase3_zero_def)
       (simp add: components_state_def or.assoc)
  have v0: "m_pos t0 = LVecBase3 1 2 3" "m_hpr t0 = LVecBase3 0 0 0"
    "m_scale t0 = LVecBase3 1 1 1" "m_shear t0 = LVecBase3 0 0 0"
    by (simp_all add: t0_def check_uniform_scale_def Let_def components_state_def
        LVecBase3_zero_def)
  have m1: "m_mat t1 = translate_mat (LVecBase3 1 2 3)"
    by (simp add: t1_def spec_do_calc_mat_def quat_given_def f0 v0
        compose_matrix_translation[unfolded LVecBase3_zero_def])
       (simp add: flag_defs flag_simps)
  have f1: "m_flags t1 AND F_mat_known \<noteq> 0" "m_flags t1 AND F_singular_known = 0"
    "m_invert_composition_cache t1 = []" "m_composition_cache t1 = []"
    by (simp_all add: t1_def spec_do_calc_mat_def f0 flag_defs flag_simps)
       (simp_all add: t0_def check_uniform_scale_def Let_def components_state_def)
  have tm: "transform_matrix identity_object = ident_mat"
    "transform_matrix t0 = translate_mat (LVecBase3 1 2 3)"
    "transform_matrix t1 = translate_mat (LVecBase3 1 2 3)"
  proof -
    show "transform_matrix identity_object = ident_mat"
      by (rule transform_matrix_identity)
    have "m_flags t0 AND F_mat_known = 0"
      by (simp add: f0 flag_defs flag_simps)
    then show "transform_matrix t0 = translate_mat (LVecBase3 1 2 3)"
      by (simp add: transform_matrix_def t1_def[symmetric] m1)
    show "transform_matrix t1 = translate_mat (LVecBase3 1 2 3)"
      using f1 by (simp add: transform_matrix_def m1)
  qed
  have fsc: "m_inv_mat sc = Some (translate_mat (LVecBase3 (-1) (-2) (-3)))"
    "m_mat sc = translate_mat (LVecBase3 1 2 3)" "m_flags sc AND F_mat_known \<noteq> 0"
    "m_composition_cache sc = []" "m_invert_composition_cache sc = []"
    using f1
    by (simp_all add: sc_def spec_calc_singular_def Let_def m1 invert_translation)
       (simp_all add: flag_defs flag_simps)
  have tm2: "transform_matrix t2 = translate_mat (LVecBase3 1 2 3)"
    "transform_matrix ti = translate_mat (LVecBase3 (-1) (-2) (-3))"
    by (simp_all add: transform_matrix_def t2_def fsc ti_def
        transform_matrix_candidate[unfolded transform_matrix_def])
  have ne: "\<not> mat_almost_equal eps ident_mat (translate_mat (LVecBase3 1 2 3))"
    "\<not> mat_almost_equal eps ident_mat (translate_mat (LVecBase3 (-1) (-2) (-3)))"
    "\<not> mat_almost_equal eps (translate_mat (LVecBase3 1 2 3))
          (translate_mat (LVecBase3 (-1) (-2) (-3)))"
    "mat_almost_equal eps ident_mat ident_mat"
    by (simp_all add: mat_almost_equal_def almost_equal4_def ident_mat_def translate_mat_def
        IS_NEARLY_EQUAL_def eps_def)
  have s1: "make_pos_hpr_scale X (LVecBase3 1 2 3) (LVecBase3 0 0 0) (LVecBase3 1 1 1) empty_world
              = (Some 2, W1)"
    by (simp add: make_pos_hpr_scale_def X_def spec_outofline_def
        spec_make_pos_hpr_scale_shear_def empty_world_def spec_init_states_def Let_def
        t0_def[symmetric] spec_intern_def deref_def spec_equal_def tm ne W1_def)
  have s2: "get_mat_at D 2 W1 = (Some (Returned (translate_mat (LVecBase3 1 2 3))), W2)"
    by (simp add: get_mat_at_def deref_def W1_def get_mat_def has_mat_def is_invalid_def
        check_mat_def calc_mat_def D_def reference_derivation_def f0 t1_def[symmetric] m1 W2_def)
       (simp add: flag_defs flag_simps)
  have s3: "make_identity X W2 = (Some 0, W2)"
    by (simp add: make_identity_def W2_def)
  have s4: "spec_compose eps 2 (Some 0) W2 = (Some 2, W2)"
    by (simp add: spec_compose_def is_identity_def W2_def)
  have ic: "invert_compose X = spec_invert_compose eps"
    by (simp add: X_def spec_outofline_def)
  have s5': "spec_invert_compose eps 2 (Some 0) W2 = (Some 3, W5)"
    using f1
    by (simp add: spec_invert_compose_def deref_def W2_def is_invalid_def sc_def[symmetric]
        fsc spec_intern_def spec_equal_def tm xform_by_translations transform_matrix_candidate
        ne Let_def t2_def ti_def W5_def)
  have s5: "get_inverse X 2 W2 = (Some 3, W5)"
    by (simp add: get_inverse_def s3 ic s5')
  have fti: "m_composition_cache ti = []"
    by (simp add: ti_def matrix_candidate_def)
  have s6: "spec_compose eps 3 (Some 2) W5 = (Some 0, W6)"
    by (simp add: spec_compose_def is_identity_def is_invalid_def W5_def deref_def
        fti tm2 xform_by_translations spec_intern_def spec_equal_def tm
        transform_matrix_candidate matrix_candidate_not_2d identity_object_not_2d ne Let_def
        ti1_def W6_def)
  have s7: "is_identity W6 0"
    by (simp add: is_identity_def W6_def)
  show ?thesis
    by (simp add: Let_def X_def[symmetric] D_def[symmetric] eps_def[symmetric]
        s1 s2 s3 s4 s5 s6 s7)
qed

end
